theory Spec2Isabelle
  imports Complex_Main
begin

section \<open>Values exchanged with the backend\<close>

text \<open>
  The frontend receives JSON. An absent property (\<open>undefined\<close>) is \<open>None\<close>. Payloads
  the code types as \<open>any\<close> and reads by property name are JSON objects: association
  lists from property names to values.

  A JavaScript number is an IEEE-754 double. A number that arrives in a payload or is
  written as a literal is modelled by the rational that its decimal form denotes, the
  form that JavaScript prints and JSON carries: \<open>0.3\<close> is \<open>3 / 10\<close>. Distinct doubles have
  distinct decimal forms, in the same order, so equality and comparison of such
  numbers are those of the rationals. A product is rounded by the runtime, and the
  rounded double is in general not the product of the rationals (\<open>9 * 0.3\<close> prints as
  \<open>2.6999999999999997\<close>). A number the page computes is therefore kept as the product
  it is computed by: \<open>Product a b\<close> stands for the double that \<open>a * b\<close> evaluates to, and
  nothing is said about its digits.
\<close>

datatype js_number =
    Num rat
  | Product js_number js_number

datatype json =
    JNull
  | JBool bool
  | JNum rat
  | JStr string
  | JArr "json list"
  | JObj "(string \<times> json) list"

type_synonym json_obj = "(string \<times> json) list"

definition get_prop :: "json_obj \<Rightarrow> string \<Rightarrow> json option" where
  \<comment> \<open>\<open>obj.name\<close>: the value of the property, \<open>None\<close> for \<open>undefined\<close>.\<close>
  "get_prop obj name = map_of obj name"

definition or_else :: "'a list option \<Rightarrow> 'a list \<Rightarrow> 'a list" where
  \<comment> \<open>\<open>xs || d\<close> for an array \<open>xs\<close>: an array is truthy, also when empty.\<close>
  "or_else xs d = (case xs of None \<Rightarrow> d | Some ys \<Rightarrow> ys)"

definition str_or :: "string option \<Rightarrow> string \<Rightarrow> string" where
  \<comment> \<open>\<open>s || d\<close> for a string \<open>s\<close>: \<open>undefined\<close> and the empty string are falsy.\<close>
  "str_or s d = (case s of None \<Rightarrow> d | Some t \<Rightarrow> if t = [] then d else t)"

definition num_or :: "rat option \<Rightarrow> rat \<Rightarrow> rat" where
  \<comment> \<open>\<open>x || d\<close> for a number \<open>x\<close>: \<open>undefined\<close> and \<open>0\<close> are falsy.\<close>
  "num_or x d = (case x of None \<Rightarrow> d | Some y \<Rightarrow> if y = 0 then d else y)"

section \<open>KPI renderings (KPICard and FlowTimeline)\<close>

record KPI =
  kpi_name :: string
  kpi_value :: rat
  kpi_unit :: string
  kpi_trend :: "string option"

datatype trend_icon = TrendingUp | TrendingDown | Minus

definition getTrendIcon :: "KPI \<Rightarrow> trend_icon" where
  \<comment> \<open>KPICard: the icon beside the value.\<close>
  "getTrendIcon kpi =
     (if kpi_trend kpi = Some ''UP'' then TrendingUp
      else if kpi_trend kpi = Some ''DOWN'' then TrendingDown
      else Minus)"

text \<open>
  The metric tile of the flow timeline prints an arrow glyph (up, down or right) in a
  colour class, followed by the trend text, and prints nothing for a falsy trend.
\<close>

datatype arrow = ArrowUp | ArrowDown | ArrowRight

record trend_span =
  span_class :: string
  span_arrow :: arrow
  span_text :: string

definition timeline_trend :: "KPI \<Rightarrow> trend_span option" where
  "timeline_trend kpi =
     (case kpi_trend kpi of
        None \<Rightarrow> None
      | Some t \<Rightarrow>
          if t = [] then None
          else Some \<lparr>
            span_class =
              (if t = ''up'' then ''text-green-600''
               else if t = ''down'' then ''text-red-600''
               else ''text-gray-500''),
            span_arrow =
              (if t = ''up'' then ArrowUp
               else if t = ''down'' then ArrowDown
               else ArrowRight),
            span_text = t \<rparr>)"

text \<open>
  The two value formatters. \<open>toLocaleString\<close> is the host's locale formatting of a
  number and \<open>toStr\<close> its plain conversion to a string (template interpolation);
  both belong to the JavaScript runtime and are parameters here.
\<close>

definition formatValue :: "(rat \<Rightarrow> string) \<Rightarrow> (rat \<Rightarrow> string) \<Rightarrow> KPI \<Rightarrow> string" where
  \<comment> \<open>KPICard\<close>
  "formatValue toLocaleString toStr kpi =
     (if kpi_unit kpi = ''$'' then ''$'' @ toLocaleString (kpi_value kpi)
      else if kpi_unit kpi = ''%'' then toStr (kpi_value kpi) @ ''%''
      else toLocaleString (kpi_value kpi) @ '' '' @ kpi_unit kpi)"

definition formatKPIValue :: "(rat \<Rightarrow> string) \<Rightarrow> (rat \<Rightarrow> string) \<Rightarrow> KPI \<Rightarrow> string" where
  \<comment> \<open>FlowTimeline\<close>
  "formatKPIValue toLocaleString toStr kpi =
     (if kpi_unit kpi = ''$'' then ''$'' @ toLocaleString (kpi_value kpi)
      else if kpi_unit kpi = ''%'' then toStr (kpi_value kpi) @ ''%''
      else toLocaleString (kpi_value kpi) @ '' '' @ kpi_unit kpi)"

datatype display_case = Dollar | Percent | Other_unit

definition unit_case :: "string \<Rightarrow> display_case" where
  "unit_case u = (if u = ''$'' then Dollar else if u = ''%'' then Percent else Other_unit)"

fun display_string :: "(rat \<Rightarrow> string) \<Rightarrow> (rat \<Rightarrow> string) \<Rightarrow> rat \<Rightarrow> string \<Rightarrow> display_case \<Rightarrow> string" where
  \<comment> \<open>The display string as the specification words it, one equation per kind of unit.\<close>
  "display_string loc str v u Dollar = CHR ''$'' # loc v"
| "display_string loc str v u Percent = str v @ [CHR ''%'']"
| "display_string loc str v u Other_unit = loc v @ CHR '' '' # u"

section \<open>Handoff records and their readers\<close>


definition toggle_expanded :: "string \<Rightarrow> string option \<Rightarrow> string option" where
  \<comment> \<open>FlowTimeline: a click on a node, \<open>setExpandedNode(isExpanded ? null : name)\<close>. The
      \<open>onNodeClick\<close> that the page passes in is not called here or anywhere else in the
      timeline.\<close>
  "toggle_expanded name expandedNode = (if expandedNode = Some name then None else Some name)"


definition drawer_source :: "json_obj \<Rightarrow> json option" where
  \<comment> \<open>HandoffDrawer: the label left of the arrow, \<open>{handoff.handoff_from}\<close>.\<close>
  "drawer_source handoff = get_prop handoff ''handoff_from''"

definition drawer_destination :: "json_obj \<Rightarrow> json option" where
  \<comment> \<open>HandoffDrawer: the label right of the arrow, \<open>{handoff.handoff_to}\<close>.\<close>
  "drawer_destination handoff = get_prop handoff ''handoff_to''"

definition HandoffDrawer :: "json_obj option \<Rightarrow> (json option \<times> json option) option" where
  \<comment> \<open>The two stage labels of the drawer; \<open>if (!handoff) return null\<close>.\<close>
  "HandoffDrawer handoff =
     (case handoff of
        None \<Rightarrow> None
      | Some h \<Rightarrow> Some (drawer_source h, drawer_destination h))"


section \<open>ConfidenceBadge\<close>

text \<open>
  The object held in the \<open>confidence\<close> state and handed to the badge. The badge's
  interface declares five properties; the page builds the object in two places, and
  a property it does not write is absent from the object.
\<close>

record ConfidenceReport =
  level :: string
  score :: rat
  can_proceed :: "bool option"
  summary :: "string option"
  blocking_issues :: "string list option"

datatype shield = ShieldCheck | ShieldAlert | ShieldX

definition getIcon :: "ConfidenceReport \<Rightarrow> shield" where
  "getIcon c =
     (if level c = ''High'' then ShieldCheck
      else if level c = ''Medium'' then ShieldAlert
      else ShieldX)"

definition getColor :: "ConfidenceReport \<Rightarrow> string" where
  "getColor c =
     (if level c = ''High'' then ''bg-green-100 border-green-200 text-green-800''
      else if level c = ''Medium'' then ''bg-yellow-100 border-yellow-200 text-yellow-800''
      else ''bg-red-100 border-red-200 text-red-800'')"

definition badge_caption :: "ConfidenceReport \<Rightarrow> string" where
  \<comment> \<open>\<open>confidence.can_proceed ? 'Ready to proceed' : 'Issues detected'\<close>; an absent
      property is falsy.\<close>
  "badge_caption c =
     (if can_proceed c = Some True then ''Ready to proceed'' else ''Issues detected'')"

definition has_all_fields :: "ConfidenceReport \<Rightarrow> bool" where
  \<comment> \<open>Every property of the declared interface is present in the object.\<close>
  "has_all_fields c =
     (can_proceed c \<noteq> None \<and> summary c \<noteq> None \<and> blocking_issues c \<noteq> None)"

definition confidence_band :: "rat \<Rightarrow> string" where
  \<comment> \<open>Modelled from the spec: the confidence gate that computes the level is not part
      of the sources. Banding: High 80-100, Medium 60-79, Low 40-59, Critical 0-39.\<close>
  "confidence_band s =
     (if 80 \<le> s then ''High''
      else if 60 \<le> s then ''Medium''
      else if 40 \<le> s then ''Low''
      else ''Critical'')"

definition proceeds_at :: "string \<Rightarrow> bool" where
  \<comment> \<open>Modelled from the spec: \<open>can_proceed\<close> is true only for High and Medium.\<close>
  "proceeds_at lvl = (lvl = ''High'' \<or> lvl = ''Medium'')"

section \<open>EvaluatorScore\<close>

record DimensionScore =
  dimension :: string
  dim_score :: js_number
  weight :: rat
  weighted_score :: js_number
  factors :: "string list"
  warnings :: "string list"

record Decision =
  action :: string
  impact :: string
  priority :: string

record Conflict =
  conflict_id :: "string option"
  between :: "string list"
  issue :: string
  severity :: string
  details :: "string option"
  resolution :: "string option"
  constraint_violated :: "string option"

record Evaluation =
  overall_score :: rat
  risk_level :: string
  eval_confidence :: string
  has_blocking_conflicts :: bool
  dimension_scores :: "DimensionScore list"
  decisions :: "Decision list"
  conflicts :: "Conflict list"

definition getRiskColor :: "string \<Rightarrow> string" where
  "getRiskColor risk =
     (if risk = ''Low'' then ''text-green-600 bg-green-100''
      else if risk = ''Medium'' then ''text-yellow-600 bg-yellow-100''
      else if risk = ''High'' then ''text-orange-600 bg-orange-100''
      else ''text-red-600 bg-red-100'')"

definition getScoreColor :: "rat \<Rightarrow> string" where
  "getScoreColor s =
     (if s \<ge> 8 then ''text-green-600''
      else if s \<ge> 6 then ''text-yellow-600''
      else if s \<ge> 4 then ''text-orange-600''
      else ''text-red-600'')"

definition risk_band :: "rat \<Rightarrow> string" where
  \<comment> \<open>Modelled from the spec: the Evaluator that scores a session is not part of the
      sources. Risk banding: at least 8.0 Low, 6.0-7.9 Medium, 4.0-5.9 High, below 4.0
      Critical.\<close>
  "risk_band s =
     (if 8 \<le> s then ''Low''
      else if 6 \<le> s then ''Medium''
      else if 4 \<le> s then ''High''
      else ''Critical'')"

definition spec_dimensions :: "(string \<times> rat) list" where
  \<comment> \<open>Modelled from the spec: the five evaluation dimensions and their weights.\<close>
  "spec_dimensions =
     [(''profitability safety'', 30 / 100), (''growth impact'', 25 / 100),
      (''inventory health'', 20 / 100), (''operational risk'', 15 / 100),
      (''data confidence'', 10 / 100)]"

section \<open>FlowSelector\<close>

record flow_entry =
  flow_id :: string
  flow_name :: string
  description :: string

definition rarrow :: string where
  \<comment> \<open>The rightwards arrow U+2192 of the descriptions, as its three UTF-8 bytes.\<close>
  "rarrow = [CHR 0xE2, CHR 0x86, CHR 0x92]"

definition FLOWS :: "flow_entry list" where
  "FLOWS =
     [\<lparr>flow_id = ''kpi_review'', flow_name = ''KPI Review'',
        description = ''CEO '' @ rarrow @ '' CFO '' @ rarrow @ '' CMO '' @ rarrow @ '' CIO '' @ rarrow @ '' Evaluator''\<rparr>,
      \<lparr>flow_id = ''trade_off'', flow_name = ''Trade-off'',
        description = ''[CFO || CMO] '' @ rarrow @ '' Evaluator''\<rparr>,
      \<lparr>flow_id = ''scenario'', flow_name = ''Scenario'',
        description = ''CFO '' @ rarrow @ '' CMO '' @ rarrow @ '' Evaluator''\<rparr>,
      \<lparr>flow_id = ''root_cause'', flow_name = ''Root Cause'',
        description = ''CIO '' @ rarrow @ '' CFO '' @ rarrow @ '' CMO '' @ rarrow @ '' Evaluator''\<rparr>]"

definition selected_description :: "string \<Rightarrow> string option" where
  \<comment> \<open>\<open>FLOWS.find(f => f.id === selected)?.description\<close>\<close>
  "selected_description selected =
     map_option description (find (\<lambda>f. flow_id f = selected) FLOWS)"

text \<open>
  The execution graphs behind the four entries. A flow is a sequential chain of stage
  nodes, or a group of parallel nodes that converge into a join node.
\<close>

datatype flow_shape = Chain "string list" | ParallelJoin "string list" string

record FlowSpec =
  spec_id :: string
  shape :: flow_shape

definition registry :: "FlowSpec list" where
  \<comment> \<open>Modelled from the spec: the registry that resolves a flow identifier into its
      graph is not part of the sources. Four built-in specs: a fully sequential 5-node
      chain; a 2-node parallel group converging into a join; a 3-node sequential chain;
      a 4-node sequential chain.\<close>
  "registry =
     [\<lparr>spec_id = ''kpi_review'', shape = Chain [''CEO'', ''CFO'', ''CMO'', ''CIO'', ''Evaluator'']\<rparr>,
      \<lparr>spec_id = ''trade_off'', shape = ParallelJoin [''CFO'', ''CMO''] ''Evaluator''\<rparr>,
      \<lparr>spec_id = ''scenario'', shape = Chain [''CFO'', ''CMO'', ''Evaluator'']\<rparr>,
      \<lparr>spec_id = ''root_cause'', shape = Chain [''CIO'', ''CFO'', ''CMO'', ''Evaluator'']\<rparr>]"

fun join_with :: "string \<Rightarrow> string list \<Rightarrow> string" where
  "join_with sep [] = []"
| "join_with sep [x] = x"
| "join_with sep (x # y # ys) = x @ sep @ join_with sep (y # ys)"

fun describe :: "flow_shape \<Rightarrow> string" where
  \<comment> \<open>How the selector writes a graph: a chain with arrows between its nodes, a
      parallel group in brackets with \<open>||\<close> between its nodes, then the join.\<close>
  "describe (Chain ns) = join_with ('' '' @ rarrow @ '' '') ns"
| "describe (ParallelJoin ps j) = ''['' @ join_with '' || '' ps @ ''] '' @ rarrow @ '' '' @ j"

fun shape_nodes :: "flow_shape \<Rightarrow> string list" where
  "shape_nodes (Chain ns) = ns"
| "shape_nodes (ParallelJoin ps j) = ps @ [j]"

fun chain_edges :: "string list \<Rightarrow> (string \<times> string) list" where
  "chain_edges (x # y # ys) = (x, y) # chain_edges (y # ys)"
| "chain_edges _ = []"

fun shape_edges :: "flow_shape \<Rightarrow> (string \<times> string) list" where
  "shape_edges (Chain ns) = chain_edges ns"
| "shape_edges (ParallelJoin ps j) = map (\<lambda>p. (p, j)) ps"

section \<open>The page: session state\<close>

record FlowNode =
  agent :: "string option"
  status :: string
  started_at :: "string option"
  ended_at :: "string option"

record AgentOutput =
  kpis :: "KPI list"
  insights :: "string list"

record session_rec =
  session_id :: string
  session_ended_at :: string
  constraints_status :: "(string \<rightharpoonup> string) option"

record DecisionSummary =
  ds_summary :: string
  ds_key_findings :: "string list"
  ds_recommendations :: "string list"
  ds_risks :: "string list"
  ds_confidence_level :: "string option"
  ds_next_steps :: "string list"

text \<open>
  The strings of the page are byte strings, except the question: the page trims it, and
  what \<open>trim\<close> removes is defined on the UTF-16 code units of a JavaScript string, so
  the question is the list of its code units.
\<close>

text \<open>
  An \<open>EventSource\<close> is an object of the browser. The page keeps the one it opened last
  in a ref; the handlers it registered on a source keep that source in their closure.
  The store below holds every source the page has opened, addressed by position.
\<close>

record connection =
  url :: string
  is_open :: bool

record home_state =
  session :: "session_rec option"
  loading :: bool
  selectedFlow :: string
  selectedMode :: string
  selectedHandoff :: "json_obj option"
  nodes :: "string \<rightharpoonup> FlowNode"
  currentNode :: "string option"
  confidence :: "ConfidenceReport option"
  agentOutputs :: "string \<rightharpoonup> AgentOutput"
  handoffs :: "json_obj list"
  evaluation :: "Evaluation option"
  constraintsStatus :: "string \<rightharpoonup> string"
  streamStatus :: string
  question :: "nat list"
  flowReasoning :: string
  decisionSummary :: "DecisionSummary option"
  eventSources :: "connection list"
  eventSourceRef :: "nat option"

definition close_source :: "nat \<Rightarrow> connection list \<Rightarrow> connection list" where
  \<comment> \<open>\<open>eventSource.close()\<close>\<close>
  "close_source i cs = (if i < length cs then cs[i := (cs ! i)\<lparr>is_open := False\<rparr>] else cs)"

definition source_open :: "nat \<Rightarrow> connection list \<Rightarrow> bool" where
  "source_open i cs = (i < length cs \<and> is_open (cs ! i))"

section \<open>The page: the streaming path\<close>

datatype event =
    session_start string "string list"
  | confidence_ev ConfidenceReport
  | agent_start string "string option"
  | agent_complete string "string option" "KPI list option" "string list option"
  | handoff_ev json_obj
  | evaluation_ev Evaluation
  | session_complete string string "(string \<rightharpoonup> string) option"
  | agent_error string string

definition initialNodes :: "string list \<Rightarrow> (string \<rightharpoonup> FlowNode)" where
  \<comment> \<open>\<open>data.flow.nodes.forEach(nodeName => initialNodes[nodeName] = {agent, status: 'pending'})\<close>\<close>
  "initialNodes names =
     foldl (\<lambda>m nodeName. m(nodeName \<mapsto>
         \<lparr>agent = Some nodeName, status = ''pending'', started_at = None, ended_at = None\<rparr>))
       Map.empty names"

definition spread_node :: "(string \<rightharpoonup> FlowNode) \<Rightarrow> string \<Rightarrow> FlowNode" where
  \<comment> \<open>\<open>{...prev[a]}\<close>: the properties of the node held for \<open>a\<close>, none when there is no
      such node. Every use overwrites \<open>status\<close>.\<close>
  "spread_node prev a =
     (case prev a of
        None \<Rightarrow> \<lparr>agent = None, status = [], started_at = None, ended_at = None\<rparr>
      | Some n \<Rightarrow> n)"

definition node_started :: "string \<Rightarrow> string option \<Rightarrow> (string \<rightharpoonup> FlowNode) \<Rightarrow> (string \<rightharpoonup> FlowNode)" where
  "node_started a t prev = prev(a \<mapsto> (spread_node prev a)\<lparr>status := ''active'', started_at := t\<rparr>)"

definition node_completed :: "string \<Rightarrow> string option \<Rightarrow> (string \<rightharpoonup> FlowNode) \<Rightarrow> (string \<rightharpoonup> FlowNode)" where
  "node_completed a t prev = prev(a \<mapsto> (spread_node prev a)\<lparr>status := ''completed'', ended_at := t\<rparr>)"

definition node_failed :: "string \<Rightarrow> (string \<rightharpoonup> FlowNode) \<Rightarrow> (string \<rightharpoonup> FlowNode)" where
  "node_failed a prev = prev(a \<mapsto> (spread_node prev a)\<lparr>status := ''failed''\<rparr>)"

fun handle :: "nat \<Rightarrow> event \<Rightarrow> home_state \<Rightarrow> home_state" where
  \<comment> \<open>The listeners registered on the source at position \<open>i\<close>.\<close>
  "handle i (session_start sid names) s =
     s\<lparr>streamStatus := ''Session '' @ sid @ '' started'', nodes := initialNodes names\<rparr>"
| "handle i (confidence_ev c) s =
     s\<lparr>confidence := Some c, streamStatus := ''Confidence: '' @ level c\<rparr>"
| "handle i (agent_start a t) s =
     s\<lparr>currentNode := Some a, streamStatus := ''Running '' @ a @ ''...'',
       nodes := node_started a t (nodes s)\<rparr>"
| "handle i (agent_complete a t ks ins) s =
     (let s1 = s\<lparr>streamStatus := a @ '' complete'', nodes := node_completed a t (nodes s)\<rparr>
      in if ks \<noteq> None \<or> ins \<noteq> None
         then s1\<lparr>agentOutputs := (agentOutputs s1)(a \<mapsto>
                  \<lparr>kpis = or_else ks [], insights = or_else ins []\<rparr>)\<rparr>
         else s1)"
| "handle i (handoff_ev h) s = s\<lparr>handoffs := handoffs s @ [h]\<rparr>"
| "handle i (evaluation_ev e) s =
     s\<lparr>evaluation := Some e, streamStatus := ''Evaluation complete''\<rparr>"
| "handle i (session_complete sid t cs) s =
     s\<lparr>currentNode := None,
       constraintsStatus := (case cs of None \<Rightarrow> Map.empty | Some m \<Rightarrow> m),
       streamStatus := ''Complete'',
       loading := False,
       session := Some \<lparr>session_id = sid, session_ended_at = t, constraints_status = cs\<rparr>,
       eventSources := close_source i (eventSources s)\<rparr>"
| "handle i (agent_error a err) s =
     s\<lparr>streamStatus := ''Error: '' @ err, nodes := node_failed a (nodes s)\<rparr>"

definition on_event :: "nat \<Rightarrow> event \<Rightarrow> home_state \<Rightarrow> home_state" where
  \<comment> \<open>A source delivers events to its listeners until it is closed.\<close>
  "on_event i ev s = (if source_open i (eventSources s) then handle i ev s else s)"

definition on_error :: "nat \<Rightarrow> home_state \<Rightarrow> home_state" where
  \<comment> \<open>\<open>eventSource.onerror\<close>\<close>
  "on_error i s =
     (if source_open i (eventSources s)
      then s\<lparr>streamStatus := ''Connection error - check console'', loading := False,
             eventSources := close_source i (eventSources s)\<rparr>
      else s)"

fun replace_first :: "char \<Rightarrow> char \<Rightarrow> string \<Rightarrow> string" where
  \<comment> \<open>\<open>String.prototype.replace\<close> with a string pattern: the first occurrence only.\<close>
  "replace_first a b [] = []"
| "replace_first a b (c # cs) = (if c = a then b # cs else c # replace_first a b cs)"

definition stream_url :: "string option \<Rightarrow> string \<Rightarrow> string \<Rightarrow> string" where
  "stream_url env_api_url flow mode =
     str_or env_api_url ''http://localhost:8000'' @ ''/api/flows/stream/''
       @ replace_first (CHR ''_'') (CHR ''-'') flow
       @ ''?mode='' @ mode @ ''&period_start=2025-11-01&period_end=2026-01-30''"

definition runFlowWithStreaming :: "string option \<Rightarrow> home_state \<Rightarrow> home_state" where
  \<comment> \<open>Up to the registration of the listeners: the reset, the close of the source held
      in the ref, and the new source, which the ref then holds.\<close>
  "runFlowWithStreaming env_api_url s =
     (let s1 = s\<lparr>loading := True, session := None, nodes := Map.empty, currentNode := None,
                 confidence := None, agentOutputs := Map.empty, handoffs := [],
                 evaluation := None, constraintsStatus := Map.empty,
                 streamStatus := ''Starting...''\<rparr>;
          closed = (case eventSourceRef s1 of
                      None \<Rightarrow> eventSources s1
                    | Some i \<Rightarrow> close_source i (eventSources s1))
      in s1\<lparr>eventSources :=
               closed @ [\<lparr>url = stream_url env_api_url (selectedFlow s) (selectedMode s),
                          is_open = True\<rparr>],
             eventSourceRef := Some (length closed)\<rparr>)"

fun replay :: "nat \<Rightarrow> event list \<Rightarrow> home_state \<Rightarrow> home_state" where
  \<comment> \<open>The events of one source, delivered in order.\<close>
  "replay i [] s = s"
| "replay i (ev # evs) s = replay i evs (on_event i ev s)"

section \<open>The page: the question path\<close>

record chat_response =
  detail :: "string option"
  flow_used :: string
  flow_reasoning :: string
  message :: string
  key_findings :: "string list option"
  recommendations :: "string list option"
  risks :: "string list option"
  confidence_level :: "string option"
  next_steps :: "string list option"
  agents_involved :: "string list option"
  agent_outputs :: "(string \<rightharpoonup> AgentOutput) option"
  resp_handoffs :: "json_obj list option"
  resp_evaluation :: "Evaluation option"
  resp_overall_score :: "rat option"
  resp_confidence :: "rat option"
  resp_session_id :: string

datatype fetch_outcome =
    Rejected string
  | Response bool chat_response

definition is_space :: "nat \<Rightarrow> bool" where
  \<comment> \<open>The code units that \<open>String.prototype.trim\<close> removes: the WhiteSpace of
      ECMAScript (TAB, VT, FF, ZWNBSP U+FEFF and the Unicode category Zs: U+0020,
      U+00A0, U+1680, U+2000 to U+200A, U+202F, U+205F, U+3000) and its LineTerminator
      (LF, CR, U+2028, U+2029). All of them are single code units.\<close>
  "is_space u =
     (u \<in> {0x0009, 0x000B, 0x000C, 0xFEFF, 0x0020, 0x00A0, 0x1680, 0x202F, 0x205F, 0x3000,
            0x000A, 0x000D, 0x2028, 0x2029}
      \<or> (0x2000 \<le> u \<and> u \<le> 0x200A))"

definition blank :: "nat list \<Rightarrow> bool" where
  \<comment> \<open>\<open>!question.trim()\<close>: nothing is left once the white space at both ends is removed.\<close>
  "blank q = list_all is_space q"

definition question_reset :: "home_state \<Rightarrow> home_state" where
  \<comment> \<open>runFlowFromQuestion, after the guard and before the request.\<close>
  "question_reset s =
     s\<lparr>loading := True, session := None, nodes := Map.empty, currentNode := None,
       confidence := None, agentOutputs := Map.empty, handoffs := [],
       evaluation := None, constraintsStatus := Map.empty, decisionSummary := None,
       flowReasoning := [], streamStatus := ''Analyzing question...''\<rparr>"

definition completed_nodes :: "string list option \<Rightarrow> (string \<rightharpoonup> FlowNode)" where
  \<comment> \<open>\<open>data.agents_involved?.forEach(agent => nodeData[agent] = {agent, status: 'completed'})\<close>\<close>
  "completed_nodes involved =
     foldl (\<lambda>m a. m(a \<mapsto>
         \<lparr>agent = Some a, status = ''completed'', started_at = None, ended_at = None\<rparr>))
       Map.empty (or_else involved [])"

definition derived_risk_level :: "string option \<Rightarrow> string" where
  "derived_risk_level cl =
     (if cl = Some ''High'' then ''Low''
      else if cl = Some ''Low'' then ''High''
      else ''Medium'')"

definition derived_dimensions :: "rat \<Rightarrow> DimensionScore list" where
  \<comment> \<open>\<open>a * b * c\<close> is \<open>(a * b) * c\<close>.\<close>
  "derived_dimensions os =
     [\<lparr>dimension = ''Strategic Alignment'', dim_score = Num os, weight = 3 / 10,
        weighted_score = Product (Num os) (Num (3 / 10)), factors = [], warnings = []\<rparr>,
      \<lparr>dimension = ''Financial Impact'', dim_score = Product (Num os) (Num (9 / 10)),
        weight = 25 / 100,
        weighted_score = Product (Product (Num os) (Num (9 / 10))) (Num (25 / 100)),
        factors = [], warnings = []\<rparr>,
      \<lparr>dimension = ''Market Analysis'', dim_score = Product (Num os) (Num (95 / 100)),
        weight = 25 / 100,
        weighted_score = Product (Product (Num os) (Num (95 / 100))) (Num (25 / 100)),
        factors = [], warnings = []\<rparr>,
      \<lparr>dimension = ''Data Quality'', dim_score = Product (Num os) (Num (85 / 100)),
        weight = 2 / 10,
        weighted_score = Product (Product (Num os) (Num (85 / 100))) (Num (2 / 10)),
        factors = [], warnings = []\<rparr>]"

definition derived_decisions :: "string list option \<Rightarrow> Decision list" where
  "derived_decisions recs =
     (case recs of
        None \<Rightarrow> []
      | Some rs \<Rightarrow>
          map (\<lambda>(idx, r). \<lparr>action = r, impact = ''See details'',
                             priority = (if idx = 0 then ''High'' else ''Medium'')\<rparr>)
            (enumerate 0 rs))"

definition derived_conflicts :: "string list option \<Rightarrow> Conflict list" where
  "derived_conflicts rsk =
     (case rsk of
        None \<Rightarrow> []
      | Some rs \<Rightarrow>
          map (\<lambda>r. \<lparr>conflict_id = None, between = [''Analysis''], issue = r,
                      severity = ''Medium'', details = None, resolution = None,
                      constraint_violated = None\<rparr>) rs)"

definition derived_evaluation :: "chat_response \<Rightarrow> rat \<Rightarrow> Evaluation" where
  \<comment> \<open>The object the page builds when the response carries a score and no evaluation.\<close>
  "derived_evaluation data os =
     \<lparr>overall_score = os,
      risk_level = derived_risk_level (confidence_level data),
      eval_confidence = str_or (confidence_level data) ''Medium'',
      has_blocking_conflicts = False,
      dimension_scores = derived_dimensions os,
      decisions = derived_decisions (recommendations data),
      conflicts = derived_conflicts (risks data)\<rparr>"

definition question_evaluation :: "chat_response \<Rightarrow> Evaluation option \<Rightarrow> Evaluation option" where
  \<comment> \<open>The evaluation state after the response, from the one before it.\<close>
  "question_evaluation data before =
     (case resp_evaluation data of
        Some e \<Rightarrow> Some e
      | None \<Rightarrow>
          (case resp_overall_score data of
             Some os \<Rightarrow> Some (derived_evaluation data os)
           | None \<Rightarrow> before))"

definition question_confidence :: "chat_response \<Rightarrow> ConfidenceReport" where
  \<comment> \<open>\<open>setConfidence({level: data.confidence_level || 'Medium', score: data.confidence || 0.8})\<close>\<close>
  "question_confidence data =
     \<lparr>level = str_or (confidence_level data) ''Medium'',
      score = num_or (resp_confidence data) (8 / 10),
      can_proceed = None, summary = None, blocking_issues = None\<rparr>"

definition question_success :: "string \<Rightarrow> chat_response \<Rightarrow> home_state \<Rightarrow> home_state" where
  \<comment> \<open>The body of the \<open>try\<close> after an ok response; \<open>now\<close> is \<open>new Date().toISOString()\<close>.\<close>
  "question_success now data s =
     s\<lparr>selectedFlow := flow_used data,
       flowReasoning := flow_reasoning data,
       decisionSummary := Some
         \<lparr>ds_summary = message data,
          ds_key_findings = or_else (key_findings data) [],
          ds_recommendations = or_else (recommendations data) [],
          ds_risks = or_else (risks data) [],
          ds_confidence_level = confidence_level data,
          ds_next_steps = or_else (next_steps data) []\<rparr>,
       nodes := completed_nodes (agents_involved data),
       agentOutputs := (case agent_outputs data of None \<Rightarrow> agentOutputs s | Some m \<Rightarrow> m),
       handoffs := (case resp_handoffs data of None \<Rightarrow> handoffs s | Some hs \<Rightarrow> hs),
       evaluation := question_evaluation data (evaluation s),
       confidence := Some (question_confidence data),
       session := Some \<lparr>session_id = resp_session_id data, session_ended_at = now,
                         constraints_status = None\<rparr>,
       streamStatus := ''Complete'',
       loading := False\<rparr>"

fun question_settled :: "string \<Rightarrow> fetch_outcome \<Rightarrow> home_state \<Rightarrow> home_state" where
  \<comment> \<open>The \<open>try\<close>/\<open>catch\<close>/\<open>finally\<close> once the request has settled.\<close>
  "question_settled now (Rejected msg) s =
     s\<lparr>streamStatus := ''Error: '' @ msg, loading := False\<rparr>"
| "question_settled now (Response ok data) s =
     (if \<not> ok
      then s\<lparr>streamStatus := ''Error: '' @ str_or (detail data) ''Failed to process question'',
             loading := False\<rparr>
      else question_success now data s)"

definition question_begin :: "home_state \<Rightarrow> home_state" where
  \<comment> \<open>runFlowFromQuestion up to the request: nothing happens for a blank question.\<close>
  "question_begin s = (if blank (question s) then s else question_reset s)"

definition runFlowFromQuestion :: "string \<Rightarrow> fetch_outcome \<Rightarrow> home_state \<Rightarrow> home_state" where
  \<comment> \<open>The whole callback, when nothing else runs between the request and its answer.\<close>
  "runFlowFromQuestion now outcome s =
     (if blank (question s) then s else question_settled now outcome (question_reset s))"

definition close_drawer :: "home_state \<Rightarrow> home_state" where
  \<comment> \<open>The \<open>onClose\<close> of the drawer.\<close>
  "close_drawer s = s\<lparr>selectedHandoff := None\<rparr>"

definition shown_drawer :: "home_state \<Rightarrow> (json option \<times> json option) option" where
  \<comment> \<open>\<open>{selectedHandoff && <HandoffDrawer handoff={selectedHandoff} ... />}\<close>\<close>
  "shown_drawer s = HandoffDrawer (selectedHandoff s)"

definition set_question :: "nat list \<Rightarrow> home_state \<Rightarrow> home_state" where
  \<comment> \<open>The \<open>onChange\<close> of the question input.\<close>
  "set_question q s = s\<lparr>question := q\<rparr>"

definition on_node_click :: "string option \<Rightarrow> home_state \<Rightarrow> home_state" where
  \<comment> \<open>The callback the page passes to the timeline as \<open>onNodeClick\<close>:
      \<open>setSelectedHandoff(handoffs.find(h => h.from === node.agent))\<close>. The timeline
      never calls it, so no step of the page runs it.\<close>
  "on_node_click node_agent s =
     s\<lparr>selectedHandoff :=
         find (\<lambda>h. get_prop h ''from'' = map_option JStr node_agent) (handoffs s)\<rparr>"

section \<open>Notions the properties are stated with\<close>

definition initial_home :: home_state where
  \<comment> \<open>The page as mounted: the arguments of its \<open>useState\<close> and \<open>useRef\<close> calls.\<close>
  "initial_home =
     \<lparr>session = None, loading = False, selectedFlow = ''kpi_review'',
      selectedMode = ''summary'', selectedHandoff = None, nodes = Map.empty,
      currentNode = None, confidence = None, agentOutputs = Map.empty, handoffs = [],
      evaluation = None, constraintsStatus = Map.empty, streamStatus = [],
      question = [], flowReasoning = [], decisionSummary = None,
      eventSources = [], eventSourceRef = None\<rparr>"

definition status_of :: "home_state \<Rightarrow> string \<Rightarrow> string option" where
  "status_of s n = map_option status (nodes s n)"

fun trace :: "nat \<Rightarrow> event list \<Rightarrow> home_state \<Rightarrow> home_state list" where
  \<comment> \<open>The successive states while the events of a source are delivered.\<close>
  "trace i [] s = [s]"
| "trace i (ev # evs) s = s # trace i evs (on_event i ev s)"

definition history :: "string \<Rightarrow> nat \<Rightarrow> event list \<Rightarrow> home_state \<Rightarrow> string option list" where
  \<comment> \<open>The status history of one node.\<close>
  "history n i evs s = map (\<lambda>st. status_of st n) (trace i evs s)"

definition legal_step :: "string option \<Rightarrow> string option \<Rightarrow> bool" where
  \<comment> \<open>pending to active, active to completed or failed, or no change.\<close>
  "legal_step a b =
     (a = b
      \<or> (a = Some ''pending'' \<and> b = Some ''active'')
      \<or> (a = Some ''active'' \<and> (b = Some ''completed'' \<or> b = Some ''failed'')))"

fun monotonic :: "string option list \<Rightarrow> bool" where
  "monotonic (a # b # rest) = (legal_step a b \<and> monotonic (b # rest))"
| "monotonic _ = True"

definition node_history :: "string \<Rightarrow> nat \<Rightarrow> event list \<Rightarrow> home_state \<Rightarrow> FlowNode option list" where
  \<comment> \<open>What the node map holds for one node, before and after each event.\<close>
  "node_history n i evs s = map (\<lambda>st. nodes st n) (trace i evs s)"

fun step_ok :: "string \<Rightarrow> event \<Rightarrow> FlowNode option \<Rightarrow> FlowNode option \<Rightarrow> bool" where
  \<comment> \<open>The one change an event may make to node \<open>n\<close>: its own \<open>agent_start\<close> takes it from
      pending to active and records \<open>started_at\<close>; its own \<open>agent_complete\<close> takes it from
      active to completed and records \<open>ended_at\<close>; its own \<open>agent_error\<close> takes it from
      active to failed; any other event leaves it as it is.\<close>
  "step_ok n (agent_start a t) before after =
     (if a = n
      then (case before of
              None \<Rightarrow> False
            | Some x \<Rightarrow> status x = ''pending''
                \<and> after = Some (x\<lparr>status := ''active'', started_at := t\<rparr>))
      else after = before)"
| "step_ok n (agent_complete a t ks ins) before after =
     (if a = n
      then (case before of
              None \<Rightarrow> False
            | Some x \<Rightarrow> status x = ''active''
                \<and> after = Some (x\<lparr>status := ''completed'', ended_at := t\<rparr>))
      else after = before)"
| "step_ok n (agent_error a err) before after =
     (if a = n
      then (case before of
              None \<Rightarrow> False
            | Some x \<Rightarrow> status x = ''active'' \<and> after = Some (x\<lparr>status := ''failed''\<rparr>))
      else after = before)"
| "step_ok n (session_start sid names) before after = False"
| "step_ok n (confidence_ev c) before after = (after = before)"
| "step_ok n (handoff_ev h) before after = (after = before)"
| "step_ok n (evaluation_ev e) before after = (after = before)"
| "step_ok n (session_complete sid t cs) before after = (after = before)"

fun lawful :: "string \<Rightarrow> event list \<Rightarrow> FlowNode option list \<Rightarrow> bool" where
  \<comment> \<open>Every event of the stream makes the change it may make, and no other.\<close>
  "lawful n [] [a] = True"
| "lawful n (ev # evs) (a # b # rest) = (step_ok n ev a b \<and> lawful n evs (b # rest))"
| "lawful n evs hist = False"

fun settles :: "string option list \<Rightarrow> bool" where
  \<comment> \<open>A node that has reached completed or failed keeps that status.\<close>
  "settles (a # b # rest) =
     ((if a = Some ''completed'' \<or> a = Some ''failed'' then b = a else True)
      \<and> settles (b # rest))"
| "settles hist = True"

text \<open>
  The order in which the producer publishes the events that follow \<open>session_start\<close>:
  no second \<open>session_start\<close>; an \<open>agent_start\<close> only for a node of the flow that has not
  started; a terminal event only for a node that has started and not ended; nothing
  after \<open>session_complete\<close>.
\<close>

datatype phase = Waiting | Running | Finished

definition initial_phases :: "string list \<Rightarrow> (string \<rightharpoonup> phase)" where
  "initial_phases names = map_of (map (\<lambda>a. (a, Waiting)) names)"

fun causal :: "(string \<rightharpoonup> phase) \<Rightarrow> event list \<Rightarrow> bool" where
  "causal ph [] = True"
| "causal ph (session_start sid names # evs) = False"
| "causal ph (agent_start a t # evs) = (ph a = Some Waiting \<and> causal (ph(a \<mapsto> Running)) evs)"
| "causal ph (agent_complete a t ks ins # evs) = (ph a = Some Running \<and> causal (ph(a \<mapsto> Finished)) evs)"
| "causal ph (agent_error a err # evs) = (ph a = Some Running \<and> causal (ph(a \<mapsto> Finished)) evs)"
| "causal ph (confidence_ev c # evs) = causal ph evs"
| "causal ph (handoff_ev h # evs) = causal ph evs"
| "causal ph (evaluation_ev e # evs) = causal ph evs"
| "causal ph (session_complete sid t cs # evs) = (evs = [])"

definition agrees :: "(string \<rightharpoonup> phase) \<Rightarrow> home_state \<Rightarrow> bool" where
  \<comment> \<open>The node map shows each node of the flow in the status of its phase.\<close>
  "agrees ph s =
     (\<forall>a. case ph a of
            None \<Rightarrow> True
          | Some Waiting \<Rightarrow> status_of s a = Some ''pending''
          | Some Running \<Rightarrow> status_of s a = Some ''active''
          | Some Finished \<Rightarrow> status_of s a = Some ''completed'' \<or> status_of s a = Some ''failed'')"

definition session_fields_cleared :: "home_state \<Rightarrow> bool" where
  \<comment> \<open>The node map, current node, confidence, agent outputs, handoffs, evaluation,
      constraint status and session record are as on the mounted page.\<close>
  "session_fields_cleared s =
     (nodes s = Map.empty \<and> currentNode s = None \<and> confidence s = None
      \<and> agentOutputs s = Map.empty \<and> handoffs s = [] \<and> evaluation s = None
      \<and> constraintsStatus s = Map.empty \<and> session s = None)"

definition open_sources :: "home_state \<Rightarrow> nat list" where
  \<comment> \<open>The positions of the sources that still deliver events.\<close>
  "open_sources s = filter (\<lambda>i. is_open (eventSources s ! i)) [0 ..< length (eventSources s)]"

definition nothing_survives :: "home_state \<Rightarrow> home_state \<Rightarrow> bool" where
  \<comment> \<open>No state of an earlier session is left in \<open>s'\<close>, the page after a run has been
      started from \<open>s\<close>: the session fields are cleared, so are the summary and the
      reasoning of an earlier question and the handoff selected from an earlier
      session, and no source that was open in \<open>s\<close> still delivers events.\<close>
  "nothing_survives s s' =
     (session_fields_cleared s'
      \<and> decisionSummary s' = None \<and> flowReasoning s' = [] \<and> selectedHandoff s' = None
      \<and> filter (\<lambda>i. i < length (eventSources s)) (open_sources s') = [])"

definition sources_tidy :: "home_state \<Rightarrow> bool" where
  \<comment> \<open>The ref holds a source of the store, and no other source is open.\<close>
  "sources_tidy s =
     ((case eventSourceRef s of None \<Rightarrow> True | Some j \<Rightarrow> j < length (eventSources s))
      \<and> list_all (\<lambda>i. eventSourceRef s = Some i) (open_sources s))"

section \<open>Concrete sessions\<close>

definition live_home :: home_state where
  \<comment> \<open>The page after Run Flow has been pressed once: source 0 is open.\<close>
  "live_home = runFlowWithStreaming None initial_home"

definition trade_off_nodes :: "string list" where
  "trade_off_nodes = [''CFO'', ''CMO'', ''Evaluator'']"

definition trade_off_stream :: "event list" where
  \<comment> \<open>Two parallel stages, one of which fails, then the join.\<close>
  "trade_off_stream =
     [agent_start ''CFO'' (Some ''10:00:01''),
      agent_start ''CMO'' (Some ''10:00:01''),
      agent_complete ''CFO'' (Some ''10:00:07'') (Some []) (Some [''Margin holds'']),
      agent_error ''CMO'' ''timeout'',
      agent_start ''Evaluator'' (Some ''10:00:31''),
      agent_complete ''Evaluator'' (Some ''10:00:33'') None None,
      session_complete ''S1'' ''10:00:33'' None]"

definition unordered_stream :: "event list" where
  \<comment> \<open>A terminal event for a node that never started, then its start.\<close>
  "unordered_stream =
     [agent_complete ''CFO'' (Some ''10:00:07'') None None,
      agent_start ''CFO'' (Some ''10:00:09'')]"

definition kpi_revenue :: "string option \<Rightarrow> KPI" where
  "kpi_revenue tr = \<lparr>kpi_name = ''Revenue'', kpi_value = 1200, kpi_unit = ''$'', kpi_trend = tr\<rparr>"


definition chat_base :: chat_response where
  \<comment> \<open>An ok answer of the chat endpoint with a score, no evaluation and no confidence.\<close>
  "chat_base =
     \<lparr>detail = None, flow_used = ''kpi_review'',
      flow_reasoning = ''General performance question'', message = ''Revenue is up'',
      key_findings = None, recommendations = Some [''Hold discounts'', ''Rebalance stock''],
      risks = Some [''Inventory overhang''], confidence_level = None, next_steps = None,
      agents_involved = Some [''CEO'', ''CFO''], agent_outputs = None, resp_handoffs = None,
      resp_evaluation = None, resp_overall_score = Some 9, resp_confidence = None,
      resp_session_id = ''Q1''\<rparr>"

definition chat_low :: chat_response where
  "chat_low = chat_base\<lparr>confidence_level := Some ''Low''\<rparr>"

definition chat_high :: chat_response where
  "chat_high = chat_base\<lparr>confidence_level := Some ''High'', resp_confidence := Some 90\<rparr>"

definition asking_home :: home_state where
  \<comment> \<open>The page as mounted, with the question "Why?" typed.\<close>
  "asking_home = set_question [0x57, 0x68, 0x79, 0x3F] initial_home"

definition answered_home :: home_state where
  \<comment> \<open>The question has been asked and answered.\<close>
  "answered_home = runFlowFromQuestion ''12:00'' (Response True chat_base) asking_home"

definition streaming_home :: home_state where
  \<comment> \<open>Run Flow has been pressed and its stream is open; the question "Why?" is then
      typed.\<close>
  "streaming_home = set_question [0x57, 0x68, 0x79, 0x3F] live_home"


section \<open>Properties\<close>

subsection \<open>The node map under the events of a stream\<close>

lemma initialNodes_aux:
  "foldl (\<lambda>m nodeName. m(nodeName \<mapsto>
         \<lparr>agent = Some nodeName, status = ''pending'', started_at = None, ended_at = None\<rparr>)) m0 names a
   = (if a \<in> set names then Some \<lparr>agent = Some a, status = ''pending'', started_at = None, ended_at = None\<rparr> else m0 a)"
  by (induction names arbitrary: m0) auto

lemma initialNodes_lookup:
  "initialNodes names a = (if a \<in> set names then Some \<lparr>agent = Some a, status = ''pending'', started_at = None, ended_at = None\<rparr> else None)"
  by (simp add: initialNodes_def initialNodes_aux)

lemma initial_phases_lookup: "initial_phases names a = (if a \<in> set names then Some Waiting else None)"
  by (induction names) (auto simp: initial_phases_def)

lemma nodes_handle:
  "nodes (handle i ev s) n =
     (case ev of
        session_start sid names \<Rightarrow> initialNodes names n
      | agent_start a t \<Rightarrow>
          (if n = a then Some ((spread_node (nodes s) a)\<lparr>status := ''active'', started_at := t\<rparr>)
           else nodes s n)
      | agent_complete a t ks ins \<Rightarrow>
          (if n = a then Some ((spread_node (nodes s) a)\<lparr>status := ''completed'', ended_at := t\<rparr>)
           else nodes s n)
      | agent_error a err \<Rightarrow>
          (if n = a then Some ((spread_node (nodes s) a)\<lparr>status := ''failed''\<rparr>) else nodes s n)
      | _ \<Rightarrow> nodes s n)"
  by (cases ev) (simp_all add: node_started_def node_completed_def node_failed_def Let_def)

lemma status_of_handle:
  "status_of (handle i ev s) n =
     (case ev of
        session_start sid names \<Rightarrow> (if n \<in> set names then Some ''pending'' else None)
      | agent_start a t \<Rightarrow> (if n = a then Some ''active'' else status_of s n)
      | agent_complete a t ks ins \<Rightarrow> (if n = a then Some ''completed'' else status_of s n)
      | agent_error a err \<Rightarrow> (if n = a then Some ''failed'' else status_of s n)
      | _ \<Rightarrow> status_of s n)"
  unfolding status_of_def nodes_handle
  by (cases ev) (simp_all add: initialNodes_lookup)

lemma eventSources_handle:
  "eventSources (handle i ev s) =
     (case ev of
        session_complete sid t cs \<Rightarrow> close_source i (eventSources s)
      | _ \<Rightarrow> eventSources s)"
  by (cases ev) (simp_all add: Let_def)

lemma agrees_step:
  assumes "agrees ph s" and "ph a = Some p"
    and "\<And>n. n \<noteq> a \<Longrightarrow> status_of s' n = status_of s n"
    and "(case q of Waiting \<Rightarrow> status_of s' a = Some ''pending''
          | Running \<Rightarrow> status_of s' a = Some ''active''
          | Finished \<Rightarrow> status_of s' a = Some ''completed'' \<or> status_of s' a = Some ''failed'')"
  shows "agrees (ph(a \<mapsto> q)) s'"
  using assms unfolding agrees_def by (auto split: option.splits phase.splits)

lemma agrees_same:
  assumes "agrees ph s" and "\<And>n. status_of s' n = status_of s n"
  shows "agrees ph s'"
  using assms unfolding agrees_def by (auto split: option.splits phase.splits)

lemma agrees_initial:
  "agrees (initial_phases names) (handle i (session_start sid names) s)"
  unfolding agrees_def
  by (auto simp: initial_phases_lookup status_of_handle simp del: handle.simps)

lemma agrees_waiting:
  assumes "agrees ph s" and "ph a = Some Waiting"
  obtains x where "nodes s a = Some x" and "status x = ''pending''"
    and "spread_node (nodes s) a = x"
proof -
  from assms have "status_of s a = Some ''pending''"
    unfolding agrees_def by (auto dest: spec[of _ a])
  then obtain x where "nodes s a = Some x" and "status x = ''pending''"
    by (auto simp: status_of_def)
  then show thesis
    by (intro that[of x]) (simp_all add: spread_node_def)
qed

lemma agrees_running:
  assumes "agrees ph s" and "ph a = Some Running"
  obtains x where "nodes s a = Some x" and "status x = ''active''"
    and "spread_node (nodes s) a = x"
proof -
  from assms have "status_of s a = Some ''active''"
    unfolding agrees_def by (auto dest: spec[of _ a])
  then obtain x where "nodes s a = Some x" and "status x = ''active''"
    by (auto simp: status_of_def)
  then show thesis
    by (intro that[of x]) (simp_all add: spread_node_def)
qed

lemma node_history_Cons:
  "node_history n i (ev # evs) s = nodes s n # node_history n i evs (on_event i ev s)"
  by (simp add: node_history_def)

lemma node_history_hd: "\<exists>rest. node_history n i evs s = nodes s n # rest"
  by (cases evs) (simp_all add: node_history_def)

lemma lawful_Cons:
  "lawful n (ev # evs) (a # node_history n i evs s) =
     (step_ok n ev a (nodes s n) \<and> lawful n evs (node_history n i evs s))"
  using node_history_hd[of n i evs s] by auto

lemma history_of_nodes: "history n i evs s = map (map_option status) (node_history n i evs s)"
  by (simp add: history_def node_history_def status_of_def)

text \<open>
  The main step: while the stream follows the producer's order and the node map shows
  every node in the status of its phase, each event makes exactly the change it may
  make.
\<close>

lemma causal_lawful:
  "causal ph evs \<Longrightarrow> agrees ph s \<Longrightarrow> source_open i (eventSources s) \<Longrightarrow>
   lawful n evs (node_history n i evs s)"
proof (induction evs arbitrary: ph s)
  case Nil
  then show ?case by (simp add: node_history_def)
next
  case (Cons ev evs)
  let ?s' = "handle i ev s"
  from Cons.prems(3) have step: "on_event i ev s = ?s'"
    by (simp add: on_event_def)
  have "step_ok n ev (nodes s n) (nodes ?s' n) \<and> lawful n evs (node_history n i evs ?s')"
  proof (cases ev)
    case (session_start sid names)
    with Cons.prems show ?thesis by simp
  next
    case (agent_start a t)
    with Cons.prems have ph: "ph a = Some Waiting" and c: "causal (ph(a \<mapsto> Running)) evs"
      by auto
    obtain x where x: "nodes s a = Some x" "status x = ''pending''" "spread_node (nodes s) a = x"
      by (rule agrees_waiting[OF Cons.prems(2) ph])
    have ag: "agrees (ph(a \<mapsto> Running)) ?s'"
      by (rule agrees_step[OF Cons.prems(2) ph])
         (simp_all add: status_of_handle agent_start del: handle.simps)
    have op: "source_open i (eventSources ?s')"
      using Cons.prems(3) by (simp add: eventSources_handle agent_start del: handle.simps)
    from Cons.IH[OF c ag op] x show ?thesis
      by (simp add: nodes_handle agent_start del: handle.simps)
  next
    case (agent_complete a t ks ins)
    with Cons.prems have ph: "ph a = Some Running" and c: "causal (ph(a \<mapsto> Finished)) evs"
      by auto
    obtain x where x: "nodes s a = Some x" "status x = ''active''" "spread_node (nodes s) a = x"
      by (rule agrees_running[OF Cons.prems(2) ph])
    have ag: "agrees (ph(a \<mapsto> Finished)) ?s'"
      by (rule agrees_step[OF Cons.prems(2) ph])
         (simp_all add: status_of_handle agent_complete del: handle.simps)
    have op: "source_open i (eventSources ?s')"
      using Cons.prems(3) by (simp add: eventSources_handle agent_complete del: handle.simps)
    from Cons.IH[OF c ag op] x show ?thesis
      by (simp add: nodes_handle agent_complete del: handle.simps)
  next
    case (agent_error a err)
    with Cons.prems have ph: "ph a = Some Running" and c: "causal (ph(a \<mapsto> Finished)) evs"
      by auto
    obtain x where x: "nodes s a = Some x" "status x = ''active''" "spread_node (nodes s) a = x"
      by (rule agrees_running[OF Cons.prems(2) ph])
    have ag: "agrees (ph(a \<mapsto> Finished)) ?s'"
      by (rule agrees_step[OF Cons.prems(2) ph])
         (simp_all add: status_of_handle agent_error del: handle.simps)
    have op: "source_open i (eventSources ?s')"
      using Cons.prems(3) by (simp add: eventSources_handle agent_error del: handle.simps)
    from Cons.IH[OF c ag op] x show ?thesis
      by (simp add: nodes_handle agent_error del: handle.simps)
  next
    case (confidence_ev c)
    with Cons.prems have c: "causal ph evs" by simp
    have ag: "agrees ph ?s'"
      by (rule agrees_same[OF Cons.prems(2)])
         (simp add: status_of_handle confidence_ev del: handle.simps)
    have op: "source_open i (eventSources ?s')"
      using Cons.prems(3) by (simp add: eventSources_handle confidence_ev del: handle.simps)
    from Cons.IH[OF c ag op] show ?thesis
      by (simp add: nodes_handle confidence_ev del: handle.simps)
  next
    case (handoff_ev h)
    with Cons.prems have c: "causal ph evs" by simp
    have ag: "agrees ph ?s'"
      by (rule agrees_same[OF Cons.prems(2)])
         (simp add: status_of_handle handoff_ev del: handle.simps)
    have op: "source_open i (eventSources ?s')"
      using Cons.prems(3) by (simp add: eventSources_handle handoff_ev del: handle.simps)
    from Cons.IH[OF c ag op] show ?thesis
      by (simp add: nodes_handle handoff_ev del: handle.simps)
  next
    case (evaluation_ev e)
    with Cons.prems have c: "causal ph evs" by simp
    have ag: "agrees ph ?s'"
      by (rule agrees_same[OF Cons.prems(2)])
         (simp add: status_of_handle evaluation_ev del: handle.simps)
    have op: "source_open i (eventSources ?s')"
      using Cons.prems(3) by (simp add: eventSources_handle evaluation_ev del: handle.simps)
    from Cons.IH[OF c ag op] show ?thesis
      by (simp add: nodes_handle evaluation_ev del: handle.simps)
  next
    case (session_complete sid t cs)
    with Cons.prems have "evs = []" by simp
    then show ?thesis
      by (simp add: nodes_handle session_complete node_history_def del: handle.simps)
  qed
  then show ?case
    by (simp only: node_history_Cons step lawful_Cons)
qed

lemma step_ok_legal:
  "step_ok n ev a b \<Longrightarrow> legal_step (map_option status a) (map_option status b)"
  by (cases ev) (auto simp: legal_step_def split: if_splits option.splits)

lemma step_ok_settled:
  "step_ok n ev a b \<Longrightarrow>
   map_option status a = Some ''completed'' \<or> map_option status a = Some ''failed'' \<Longrightarrow>
   map_option status b = map_option status a"
  by (cases ev) (auto split: if_splits option.splits)

lemma lawful_monotonic: "lawful n evs hist \<Longrightarrow> monotonic (map (map_option status) hist)"
  by (induction n evs hist rule: lawful.induct) (auto intro: step_ok_legal)

lemma lawful_settles: "lawful n evs hist \<Longrightarrow> settles (map (map_option status) hist)"
proof (induction n evs hist rule: lawful.induct)
  case (2 n ev evs a b rest)
  then have "step_ok n ev a b" and "settles (map (map_option status) (b # rest))"
    by simp_all
  then show ?case
    using step_ok_settled[of n ev a b] by auto
qed simp_all

text \<open>
  C1. Take an event sequence that begins with \<open>session_start\<close> and goes on in the order
  in which the producer publishes events (no second \<open>session_start\<close>; an \<open>agent_start\<close>
  only for a node of the flow that has not started; \<open>agent_complete\<close> or \<open>agent_error\<close>
  only for a node that has started and not ended; nothing after \<open>session_complete\<close>),
  delivered to the listeners of an open stream. Then for every node of the flow the
  node map the page rebuilds holds the node as pending, with no timestamps, after
  \<open>session_start\<close>, and from there every event changes the node exactly as follows: the
  node's \<open>agent_start\<close> takes it from pending to active and records \<open>started_at\<close>, its
  \<open>agent_complete\<close> takes it from active to completed and records \<open>ended_at\<close>, its
  \<open>agent_error\<close> takes it from active to failed, and every other event leaves it
  untouched. So the status history only steps from pending to active and from active
  to completed or failed, and a node that is completed or failed stays so.
\<close>

theorem C1_ordered_stream_rebuilds_nodes:
  assumes "causal (initial_phases names) evs"
    and "source_open i (eventSources s)"
    and "n \<in> set names"
  shows "nodes (on_event i (session_start sid names) s) n =
           Some \<lparr>agent = Some n, status = ''pending'', started_at = None, ended_at = None\<rparr>
       \<and> lawful n evs (node_history n i evs (on_event i (session_start sid names) s))
       \<and> monotonic (history n i evs (on_event i (session_start sid names) s))
       \<and> settles (history n i evs (on_event i (session_start sid names) s))"
proof -
  let ?s1 = "handle i (session_start sid names) s"
  from assms(2) have ev: "on_event i (session_start sid names) s = ?s1"
    by (simp add: on_event_def)
  have first: "nodes ?s1 n =
      Some \<lparr>agent = Some n, status = ''pending'', started_at = None, ended_at = None\<rparr>"
    using assms(3) by (simp add: nodes_handle initialNodes_lookup del: handle.simps)
  have op: "source_open i (eventSources ?s1)"
    using assms(2) by (simp add: eventSources_handle del: handle.simps)
  have law: "lawful n evs (node_history n i evs ?s1)"
    by (rule causal_lawful[OF assms(1) agrees_initial op])
  from first law lawful_monotonic[OF law] lawful_settles[OF law] show ?thesis
    by (simp only: ev history_of_nodes simp_thms)
qed

lemma live_home_open: "source_open 0 (eventSources live_home)"
  by (simp add: live_home_def runFlowWithStreaming_def initial_home_def source_open_def Let_def)

lemma trade_off_stream_causal: "causal (initial_phases trade_off_nodes) trade_off_stream"
  by (simp add: initial_phases_def trade_off_nodes_def trade_off_stream_def)

lemma trade_off_history:
  "history ''CMO'' 0 trade_off_stream (on_event 0 (session_start ''S1'' trade_off_nodes) live_home)
   = [Some ''pending'', Some ''pending'', Some ''active'', Some ''active'', Some ''failed'',
      Some ''failed'', Some ''failed'', Some ''failed'']"
  by (simp add: history_def trade_off_stream_def trade_off_nodes_def on_event_def
      live_home_open status_of_handle eventSources_handle del: handle.simps)

theorem C1_ordered_stream_witness:
  "causal (initial_phases trade_off_nodes) trade_off_stream
   \<and> source_open 0 (eventSources live_home)
   \<and> ''CMO'' \<in> set trade_off_nodes
   \<and> nodes (on_event 0 (session_start ''S1'' trade_off_nodes) live_home) ''CMO'' =
       Some \<lparr>agent = Some ''CMO'', status = ''pending'', started_at = None, ended_at = None\<rparr>
   \<and> lawful ''CMO'' trade_off_stream
       (node_history ''CMO'' 0 trade_off_stream
          (on_event 0 (session_start ''S1'' trade_off_nodes) live_home))
   \<and> history ''CMO'' 0 trade_off_stream (on_event 0 (session_start ''S1'' trade_off_nodes) live_home)
       = [Some ''pending'', Some ''pending'', Some ''active'', Some ''active'', Some ''failed'',
          Some ''failed'', Some ''failed'', Some ''failed'']"
proof -
  have m: "''CMO'' \<in> set trade_off_nodes" by (simp add: trade_off_nodes_def)
  from C1_ordered_stream_rebuilds_nodes[OF trade_off_stream_causal live_home_open m, of "''S1''"]
  show ?thesis
    using trade_off_stream_causal live_home_open m trade_off_history by simp
qed

text \<open>
  The order of the stream is what the result rests on: the listeners write the status
  an event names whatever the node held before. A terminal event for a node that has
  not started, followed by its start, takes the node from pending to completed and
  back to active.
\<close>

lemma unordered_history:
  "\<not> causal (initial_phases [''CFO'', ''Evaluator'']) unordered_stream"
  "history ''CFO'' 0 unordered_stream
     (on_event 0 (session_start ''S1'' [''CFO'', ''Evaluator'']) live_home)
   = [Some ''pending'', Some ''completed'', Some ''active'']"
  by (simp_all add: history_def unordered_stream_def on_event_def live_home_open
      status_of_handle eventSources_handle initial_phases_def del: handle.simps)

lemma trace_not_empty: "trace i evs s \<noteq> []"
  by (cases evs) simp_all

lemma replay_last_of_trace: "replay i evs s = last (trace i evs s)"
  by (induction evs arbitrary: s) (simp_all add: trace_not_empty)

subsection \<open>KPI renderings\<close>

lemma formatValue_display:
  "formatValue loc str kpi = display_string loc str (kpi_value kpi) (kpi_unit kpi) (unit_case (kpi_unit kpi))"
  by (simp add: formatValue_def unit_case_def)

lemma formatKPIValue_display:
  "formatKPIValue loc str kpi = display_string loc str (kpi_value kpi) (kpi_unit kpi) (unit_case (kpi_unit kpi))"
  by (simp add: formatKPIValue_def unit_case_def)

lemma unit_case_cases:
  "unit_case ''$'' = Dollar" "unit_case ''%'' = Percent"
  "u \<noteq> ''$'' \<Longrightarrow> u \<noteq> ''%'' \<Longrightarrow> unit_case u = Other_unit"
  by (simp_all add: unit_case_def)

text \<open>
  C9. The formatter of the KPI card and the formatter of the flow timeline give the
  same string for every KPI, and it is the string of the specification: a dollar sign
  and the locale-formatted value for the unit \<open>$\<close>, the plain value and a percent sign
  for the unit \<open>%\<close>, otherwise the locale-formatted value, a space and the unit.
\<close>

theorem C9_formatters_agree:
  "formatValue loc str kpi = formatKPIValue loc str kpi
   \<and> formatKPIValue loc str kpi =
       display_string loc str (kpi_value kpi) (kpi_unit kpi) (unit_case (kpi_unit kpi))"
  by (simp only: formatValue_display formatKPIValue_display)

lemma card_trend_upper_case:
  "getTrendIcon (kpi_revenue (Some ''UP'')) = TrendingUp"
  "getTrendIcon (kpi_revenue (Some ''DOWN'')) = TrendingDown"
  "getTrendIcon (kpi_revenue (Some ''FLAT'')) = Minus"
  by (simp_all add: getTrendIcon_def kpi_revenue_def)

lemma timeline_trend_lower_case:
  "map_option span_arrow (timeline_trend (kpi_revenue (Some ''up''))) = Some ArrowUp"
  "map_option span_arrow (timeline_trend (kpi_revenue (Some ''down''))) = Some ArrowDown"
  by (simp_all add: timeline_trend_def kpi_revenue_def)

text \<open>
  C8 does not hold of the flow timeline. Its metric tile compares the trend with the
  lower-case words \<open>up\<close> and \<open>down\<close>, so the values \<open>UP\<close> and \<open>DOWN\<close>, which the KPI card
  shows as rising and falling, both get the neutral arrow in the neutral colour.
\<close>

theorem C8_timeline_misses_upper_case:
  "getTrendIcon (kpi_revenue (Some ''UP'')) = TrendingUp
   \<and> timeline_trend (kpi_revenue (Some ''UP'')) =
       Some \<lparr>span_class = ''text-gray-500'', span_arrow = ArrowRight, span_text = ''UP''\<rparr>
   \<and> getTrendIcon (kpi_revenue (Some ''DOWN'')) = TrendingDown
   \<and> timeline_trend (kpi_revenue (Some ''DOWN'')) =
       Some \<lparr>span_class = ''text-gray-500'', span_arrow = ArrowRight, span_text = ''DOWN''\<rparr>
   \<and> timeline_trend (kpi_revenue (Some ''FLAT'')) =
       Some \<lparr>span_class = ''text-gray-500'', span_arrow = ArrowRight, span_text = ''FLAT''\<rparr>"
  by (simp add: getTrendIcon_def timeline_trend_def kpi_revenue_def)

subsection \<open>Handoff records\<close>




text \<open>
  The page never opens the drawer: the only step that selects a handoff is the
  callback it passes to the timeline, which the timeline does not call, and no other
  step of the page writes a handoff into the selection.
\<close>

lemma selection_untouched:
  "selectedHandoff (on_event i ev s) = selectedHandoff s"
  "selectedHandoff (on_error i s) = selectedHandoff s"
  "selectedHandoff (runFlowWithStreaming env s) = selectedHandoff s"
  "selectedHandoff (runFlowFromQuestion now outcome s) = selectedHandoff s"
  "selectedHandoff (set_question q s) = selectedHandoff s"
  "selectedHandoff (close_drawer s) = None"
proof -
  show "selectedHandoff (on_event i ev s) = selectedHandoff s"
    by (cases ev) (simp_all add: on_event_def Let_def)
  show "selectedHandoff (on_error i s) = selectedHandoff s"
    by (simp add: on_error_def)
  show "selectedHandoff (runFlowWithStreaming env s) = selectedHandoff s"
    by (simp add: runFlowWithStreaming_def Let_def)
  show "selectedHandoff (runFlowFromQuestion now outcome s) = selectedHandoff s"
    by (cases outcome)
       (simp_all add: runFlowFromQuestion_def question_reset_def question_success_def)
  show "selectedHandoff (set_question q s) = selectedHandoff s"
    by (simp add: set_question_def)
  show "selectedHandoff (close_drawer s) = None"
    by (simp add: close_drawer_def)
qed


lemma drawer_stays_closed:
  assumes "selectedHandoff s = None"
  shows "shown_drawer s = None"
    and "shown_drawer (on_event i ev s) = None"
    and "shown_drawer (on_error i s) = None"
    and "shown_drawer (runFlowWithStreaming env s) = None"
    and "shown_drawer (runFlowFromQuestion now outcome s) = None"
    and "shown_drawer (set_question q s) = None"
  using assms by (simp_all add: shown_drawer_def HandoffDrawer_def selection_untouched)

lemma drawer_closed_at_mount: "selectedHandoff initial_home = None"
  by (simp add: initial_home_def)

subsection \<open>The question path\<close>

lemma asking_not_blank: "\<not> blank (question asking_home)"
  by (simp add: asking_home_def set_question_def blank_def is_space_def)

lemma blank_examples:
  "blank []" "blank [0x20, 0x09, 0x0A]" "blank [0xA0, 0x2003, 0xFEFF, 0x2028]"
  "\<not> blank [0x20, 0x57, 0x20]" "\<not> blank [0x200B]"
  by (simp_all add: blank_def is_space_def)

lemma blank_question_starts_nothing:
  "blank (question s) \<Longrightarrow> question_begin s = s"
  "blank (question s) \<Longrightarrow> runFlowFromQuestion now outcome s = s"
  by (simp_all add: question_begin_def runFlowFromQuestion_def)

lemma question_run:
  "\<not> blank (question s) \<Longrightarrow>
   runFlowFromQuestion now (Response True data) s = question_success now data (question_reset s)"
  by (simp add: runFlowFromQuestion_def)

lemma question_run_confidence:
  "\<not> blank (question s) \<Longrightarrow>
   confidence (runFlowFromQuestion now (Response True data) s) = Some (question_confidence data)"
  by (simp add: question_run question_success_def)

lemma question_run_evaluation:
  "\<not> blank (question s) \<Longrightarrow>
   evaluation (runFlowFromQuestion now (Response True data) s) = question_evaluation data None"
  by (simp add: question_run question_success_def question_reset_def)

subsection \<open>Confidence reports\<close>

lemma confidence_band_boundaries:
  "confidence_band 79 = ''Medium''" "confidence_band 80 = ''High''"
  "confidence_band 59 = ''Low''" "confidence_band 60 = ''Medium''"
  "confidence_band 39 = ''Critical''" "confidence_band 40 = ''Low''"
  "confidence_band 100 = ''High''" "confidence_band 0 = ''Critical''"
  by (simp_all add: confidence_band_def)

lemma proceeds_at_levels:
  "proceeds_at ''High''" "proceeds_at ''Medium''"
  "\<not> proceeds_at ''Low''" "\<not> proceeds_at ''Critical''"
  by (simp_all add: proceeds_at_def)

lemma question_report_fields:
  "can_proceed (question_confidence data) = None"
  "summary (question_confidence data) = None"
  "blocking_issues (question_confidence data) = None"
  "badge_caption (question_confidence data) = ''Issues detected''"
  by (simp_all add: question_confidence_def badge_caption_def)

text \<open>
  C5 does not hold of the report the page builds on the question path. For an answer
  that names no confidence the report has level Medium and score 0.8: the banding puts
  0.8 in Critical (and the same number read as a share, 80 of 100, in High), and
  \<open>can_proceed\<close> is not true although the level is Medium. For an answer with level
  High and score 90 the level is the band of the score, and \<open>can_proceed\<close> is still
  not true.
\<close>

theorem C5_question_report_off_band:
  "map_option level (confidence (runFlowFromQuestion now (Response True chat_base) asking_home))
     = Some ''Medium''
   \<and> map_option score (confidence (runFlowFromQuestion now (Response True chat_base) asking_home))
     = Some (8 / 10)
   \<and> confidence_band (8 / 10) = ''Critical''
   \<and> confidence_band 80 = ''High''
   \<and> proceeds_at ''Medium''
   \<and> map_option can_proceed (confidence (runFlowFromQuestion now (Response True chat_base) asking_home))
     = Some None
   \<and> map_option level (confidence (runFlowFromQuestion now (Response True chat_high) asking_home))
     = Some (confidence_band 90)
   \<and> proceeds_at (confidence_band 90)
   \<and> map_option can_proceed (confidence (runFlowFromQuestion now (Response True chat_high) asking_home))
     = Some None"
  by (simp add: question_run_confidence asking_not_blank question_confidence_def chat_base_def
      chat_high_def str_or_def num_or_def confidence_band_def proceeds_at_def)

text \<open>
  C7 does not hold of the report the page builds on the question path: the object has
  a level and a score only. The badge, which declares \<open>can_proceed\<close>, \<open>summary\<close> and
  \<open>blocking_issues\<close> as present, reads the missing \<open>can_proceed\<close> as false and prints
  "Issues detected" under a High level.
\<close>

theorem C7_question_report_lacks_fields:
  "map_option level (confidence (runFlowFromQuestion now (Response True chat_high) asking_home))
     = Some ''High''
   \<and> map_option has_all_fields (confidence (runFlowFromQuestion now (Response True chat_high) asking_home))
     = Some False
   \<and> map_option can_proceed (confidence (runFlowFromQuestion now (Response True chat_high) asking_home))
     = Some None
   \<and> map_option summary (confidence (runFlowFromQuestion now (Response True chat_high) asking_home))
     = Some None
   \<and> map_option blocking_issues (confidence (runFlowFromQuestion now (Response True chat_high) asking_home))
     = Some None
   \<and> map_option badge_caption (confidence (runFlowFromQuestion now (Response True chat_high) asking_home))
     = Some ''Issues detected''"
  by (simp add: question_run_confidence asking_not_blank question_report_fields has_all_fields_def)
     (simp add: question_confidence_def chat_high_def chat_base_def str_or_def)

lemma streamed_report_kept:
  "confidence (handle i (confidence_ev c) s) = Some c"
  by simp

subsection \<open>Evaluations\<close>

lemma risk_band_boundaries:
  "risk_band 8 = ''Low''" "risk_band (79 / 10) = ''Medium''" "risk_band 6 = ''Medium''"
  "risk_band (59 / 10) = ''High''" "risk_band 4 = ''High''" "risk_band (39 / 10) = ''Critical''"
  by (simp_all add: risk_band_def)

lemma score_colour_bands:
  "getScoreColor x =
     (if risk_band x = ''Low'' then ''text-green-600''
      else if risk_band x = ''Medium'' then ''text-yellow-600''
      else if risk_band x = ''High'' then ''text-orange-600''
      else ''text-red-600'')"
  by (simp add: getScoreColor_def risk_band_def)

lemma derived_risk_level_cases:
  "derived_risk_level (Some ''High'') = ''Low''"
  "derived_risk_level (Some ''Low'') = ''High''"
  "derived_risk_level (Some ''Medium'') = ''Medium''"
  "derived_risk_level (Some ''Critical'') = ''Medium''"
  "derived_risk_level None = ''Medium''"
  by (simp_all add: derived_risk_level_def)

lemma question_evaluation_derived:
  "resp_evaluation data = None \<Longrightarrow> resp_overall_score data = Some os \<Longrightarrow>
   question_evaluation data before = Some (derived_evaluation data os)"
  by (simp add: question_evaluation_def)

lemma question_evaluation_received:
  "resp_evaluation data = Some e \<Longrightarrow> question_evaluation data before = Some e"
  by (simp add: question_evaluation_def)

lemma chat_fields:
  "resp_evaluation chat_base = None" "resp_overall_score chat_base = Some 9"
  "confidence_level chat_base = None"
  "resp_evaluation chat_low = None" "resp_overall_score chat_low = Some 9"
  "confidence_level chat_low = Some ''Low''"
  "resp_evaluation chat_high = None" "resp_overall_score chat_high = Some 9"
  "confidence_level chat_high = Some ''High''"
  by (simp_all add: chat_low_def chat_high_def chat_base_def)

text \<open>
  C2 (as amended). An evaluation that arrives from the backend, in the \<open>evaluation\<close>
  event or in the answer to a question, is kept as it is. The evaluation the page
  builds, when the answer to a question carries a score and no evaluation, keeps that
  score and takes its risk level from the answer's confidence level alone: High gives
  Low, Low gives High, anything else (also no confidence level) gives Medium; it is
  never Critical and does not depend on the score. The score's colour on the display
  follows the bands of the risk banding: from 8, from 6, from 4, below 4.
\<close>

theorem C2_rebuilt_risk_from_confidence:
  "(\<not> blank (question s) \<and> resp_evaluation data = None \<and> resp_overall_score data = Some os \<longrightarrow>
      map_option risk_level (evaluation (runFlowFromQuestion now (Response True data) s)) =
        Some (if confidence_level data = Some ''High'' then ''Low''
              else if confidence_level data = Some ''Low'' then ''High''
              else ''Medium'')
      \<and> map_option overall_score (evaluation (runFlowFromQuestion now (Response True data) s))
          = Some os)
   \<and> risk_level (derived_evaluation data os) =
        (if confidence_level data = Some ''High'' then ''Low''
         else if confidence_level data = Some ''Low'' then ''High''
         else ''Medium'')
   \<and> risk_level (derived_evaluation data os) \<noteq> ''Critical''
   \<and> risk_level (derived_evaluation data os') = risk_level (derived_evaluation data os)
   \<and> (\<not> blank (question s) \<and> resp_evaluation data = Some e \<longrightarrow>
        evaluation (runFlowFromQuestion now (Response True data) s) = Some e)
   \<and> evaluation (handle i (evaluation_ev e) s') = Some e
   \<and> getScoreColor x =
        (if 8 \<le> x then ''text-green-600''
         else if 6 \<le> x then ''text-yellow-600''
         else if 4 \<le> x then ''text-orange-600''
         else ''text-red-600'')
   \<and> getScoreColor x =
        (if risk_band x = ''Low'' then ''text-green-600''
         else if risk_band x = ''Medium'' then ''text-yellow-600''
         else if risk_band x = ''High'' then ''text-orange-600''
         else ''text-red-600'')"
proof -
  have level: "risk_level (derived_evaluation data v) =
      (if confidence_level data = Some ''High'' then ''Low''
       else if confidence_level data = Some ''Low'' then ''High''
       else ''Medium'')" for v
    by (simp add: derived_evaluation_def derived_risk_level_def)
  have built: "evaluation (runFlowFromQuestion now (Response True data) s)
      = Some (derived_evaluation data os)"
    if "\<not> blank (question s)" "resp_evaluation data = None" "resp_overall_score data = Some os"
    using that by (simp add: question_run_evaluation question_evaluation_derived)
  have kept: "evaluation (runFlowFromQuestion now (Response True data) s) = Some e"
    if "\<not> blank (question s)" "resp_evaluation data = Some e"
    using that by (simp add: question_run_evaluation question_evaluation_received)
  have score: "overall_score (derived_evaluation data os) = os"
    by (simp add: derived_evaluation_def)
  have colour: "getScoreColor x =
        (if 8 \<le> x then ''text-green-600''
         else if 6 \<le> x then ''text-yellow-600''
         else if 4 \<le> x then ''text-orange-600''
         else ''text-red-600'')"
    by (simp add: getScoreColor_def)
  have stream: "evaluation (handle i (evaluation_ev e) s') = Some e"
    by simp
  show ?thesis
    using built kept score colour stream score_colour_bands[of x]
    by (simp add: level)
qed

theorem C2_rebuilt_risk_witness:
  "\<not> blank (question asking_home)
   \<and> resp_evaluation chat_low = None \<and> resp_overall_score chat_low = Some 9
   \<and> map_option risk_level (evaluation (runFlowFromQuestion ''12:00'' (Response True chat_low) asking_home))
       = Some ''High''
   \<and> resp_evaluation chat_high = None \<and> resp_overall_score chat_high = Some 9
   \<and> map_option risk_level (evaluation (runFlowFromQuestion ''12:00'' (Response True chat_high) asking_home))
       = Some ''Low''
   \<and> resp_evaluation chat_base = None \<and> resp_overall_score chat_base = Some 9
   \<and> map_option risk_level (evaluation (runFlowFromQuestion ''12:00'' (Response True chat_base) asking_home))
       = Some ''Medium''
   \<and> map_option overall_score (evaluation (runFlowFromQuestion ''12:00'' (Response True chat_base) asking_home))
       = Some 9
   \<and> resp_evaluation (chat_base\<lparr>resp_evaluation := Some (derived_evaluation chat_low 3)\<rparr>)
       = Some (derived_evaluation chat_low 3)
   \<and> evaluation (runFlowFromQuestion ''12:00''
        (Response True (chat_base\<lparr>resp_evaluation := Some (derived_evaluation chat_low 3)\<rparr>))
        asking_home) = Some (derived_evaluation chat_low 3)"
proof -
  note inst = C2_rebuilt_risk_from_confidence[where s = asking_home and now = "''12:00''"]
  from inst[where data = chat_low and os = 9]
    inst[where data = chat_high and os = 9]
    inst[where data = chat_base and os = 9]
    inst[where data = "chat_base\<lparr>resp_evaluation := Some (derived_evaluation chat_low 3)\<rparr>"
      and e = "derived_evaluation chat_low 3"]
  show ?thesis
    by (simp add: asking_not_blank chat_fields)
qed

text \<open>
  C2 (as stated) fails: for an answer with score 9 and confidence level Low the page
  builds an evaluation of risk level High, where the banding of 9 is Low.
\<close>

theorem C2_risk_banding_counterexample:
  "map_option risk_level (evaluation (runFlowFromQuestion ''12:00'' (Response True chat_low) asking_home))
     = Some ''High''
   \<and> map_option (risk_band \<circ> overall_score)
       (evaluation (runFlowFromQuestion ''12:00'' (Response True chat_low) asking_home))
     = Some ''Low''"
  by (simp add: question_run_evaluation asking_not_blank question_evaluation_derived
      chat_fields derived_evaluation_def derived_risk_level_def risk_band_def)

lemma spec_weights_sum: "sum_list (map snd spec_dimensions) = 1"
  by (simp add: spec_dimensions_def)

text \<open>
  C3 (as amended). An evaluation that arrives from the backend is kept as it is. The
  evaluation the page builds, when the answer to a question carries a score and no
  evaluation, has exactly four dimension scores: Strategic Alignment (weight 0.3),
  Financial Impact (0.25), Market Analysis (0.25) and Data Quality (0.2), with no
  factors and no warnings. The four weights sum to 1. The scores are the answer's
  score and its products with 0.9, 0.95 and 0.85, and each weighted score is the
  product of the score and the weight, each product the double the page computes.
\<close>

theorem C3_rebuilt_dimensions:
  "(\<not> blank (question s) \<and> resp_evaluation data = None \<and> resp_overall_score data = Some os \<longrightarrow>
      map_option dimension_scores (evaluation (runFlowFromQuestion now (Response True data) s))
        = Some (derived_dimensions os))
   \<and> length (derived_dimensions os) = 4
   \<and> map dimension (derived_dimensions os) =
        [''Strategic Alignment'', ''Financial Impact'', ''Market Analysis'', ''Data Quality'']
   \<and> map weight (derived_dimensions os) = [3 / 10, 25 / 100, 25 / 100, 2 / 10]
   \<and> sum_list (map weight (derived_dimensions os)) = 1
   \<and> map dim_score (derived_dimensions os) =
        [Num os, Product (Num os) (Num (9 / 10)), Product (Num os) (Num (95 / 100)),
         Product (Num os) (Num (85 / 100))]
   \<and> list_all (\<lambda>d. weighted_score d = Product (dim_score d) (Num (weight d)))
        (derived_dimensions os)
   \<and> list_all (\<lambda>d. factors d = [] \<and> warnings d = []) (derived_dimensions os)
   \<and> (\<not> blank (question s) \<and> resp_evaluation data = Some e \<longrightarrow>
        evaluation (runFlowFromQuestion now (Response True data) s) = Some e)
   \<and> evaluation (handle i (evaluation_ev e) s') = Some e"
proof -
  have built: "map_option dimension_scores (evaluation (runFlowFromQuestion now (Response True data) s))
      = Some (derived_dimensions os)"
    if "\<not> blank (question s)" "resp_evaluation data = None" "resp_overall_score data = Some os"
    using that
    by (simp add: question_run_evaluation question_evaluation_derived derived_evaluation_def)
  have kept: "evaluation (runFlowFromQuestion now (Response True data) s) = Some e"
    if "\<not> blank (question s)" "resp_evaluation data = Some e"
    using that by (simp add: question_run_evaluation question_evaluation_received)
  have stream: "evaluation (handle i (evaluation_ev e) s') = Some e"
    by simp
  have shape: "length (derived_dimensions os) = 4"
    "map dimension (derived_dimensions os) =
        [''Strategic Alignment'', ''Financial Impact'', ''Market Analysis'', ''Data Quality'']"
    "map weight (derived_dimensions os) = [3 / 10, 25 / 100, 25 / 100, 2 / 10]"
    "map dim_score (derived_dimensions os) =
        [Num os, Product (Num os) (Num (9 / 10)), Product (Num os) (Num (95 / 100)),
         Product (Num os) (Num (85 / 100))]"
    "list_all (\<lambda>d. weighted_score d = Product (dim_score d) (Num (weight d)))
        (derived_dimensions os)"
    "list_all (\<lambda>d. factors d = [] \<and> warnings d = []) (derived_dimensions os)"
    by (simp_all add: derived_dimensions_def)
  have total: "sum_list (map weight (derived_dimensions os)) = 1"
    by (simp add: shape(3))
  show ?thesis
    using built kept stream total by (simp add: shape)
qed

theorem C3_rebuilt_dimensions_witness:
  "\<not> blank (question asking_home)
   \<and> resp_evaluation chat_base = None
   \<and> resp_overall_score chat_base = Some 9
   \<and> map_option (map weighted_score \<circ> dimension_scores)
       (evaluation (runFlowFromQuestion ''12:00'' (Response True chat_base) asking_home))
     = Some [Product (Num 9) (Num (3 / 10)),
             Product (Product (Num 9) (Num (9 / 10))) (Num (25 / 100)),
             Product (Product (Num 9) (Num (95 / 100))) (Num (25 / 100)),
             Product (Product (Num 9) (Num (85 / 100))) (Num (2 / 10))]
   \<and> resp_evaluation (chat_base\<lparr>resp_evaluation := Some (derived_evaluation chat_low 3)\<rparr>)
       = Some (derived_evaluation chat_low 3)
   \<and> evaluation (runFlowFromQuestion ''12:00''
        (Response True (chat_base\<lparr>resp_evaluation := Some (derived_evaluation chat_low 3)\<rparr>))
        asking_home) = Some (derived_evaluation chat_low 3)"
proof -
  note inst = C3_rebuilt_dimensions[where s = asking_home and now = "''12:00''"]
  have w: "map weighted_score (derived_dimensions 9) =
      [Product (Num 9) (Num (3 / 10)),
       Product (Product (Num 9) (Num (9 / 10))) (Num (25 / 100)),
       Product (Product (Num 9) (Num (95 / 100))) (Num (25 / 100)),
       Product (Product (Num 9) (Num (85 / 100))) (Num (2 / 10))]"
    by (simp add: derived_dimensions_def)
  from inst[where data = chat_base and os = 9]
    inst[where data = "chat_base\<lparr>resp_evaluation := Some (derived_evaluation chat_low 3)\<rparr>"
      and e = "derived_evaluation chat_low 3"]
  show ?thesis
    using w by (auto simp: asking_not_blank chat_fields)
qed

text \<open>
  C3 (as stated) fails: the evaluation the page builds has four dimension scores, and
  none of them is one of the five dimensions of the specification.
\<close>

theorem C3_five_dimensions_counterexample:
  "map_option (length \<circ> dimension_scores)
       (evaluation (runFlowFromQuestion ''12:00'' (Response True chat_base) asking_home))
     = Some 4
   \<and> length spec_dimensions = 5
   \<and> map_option (map dimension \<circ> dimension_scores)
       (evaluation (runFlowFromQuestion ''12:00'' (Response True chat_base) asking_home))
     = Some [''Strategic Alignment'', ''Financial Impact'', ''Market Analysis'', ''Data Quality'']"
  by (simp add: question_run_evaluation asking_not_blank question_evaluation_derived
      chat_fields derived_evaluation_def derived_dimensions_def spec_dimensions_def)

subsection \<open>The flows on offer\<close>

lemma registry_shapes:
  "map shape registry =
     [Chain [''CEO'', ''CFO'', ''CMO'', ''CIO'', ''Evaluator''],
      ParallelJoin [''CFO'', ''CMO''] ''Evaluator'',
      Chain [''CFO'', ''CMO'', ''Evaluator''],
      Chain [''CIO'', ''CFO'', ''CMO'', ''Evaluator'']]"
  by (simp add: registry_def)

lemma registry_edges:
  "map (shape_edges \<circ> shape) registry =
     [[(''CEO'', ''CFO''), (''CFO'', ''CMO''), (''CMO'', ''CIO''), (''CIO'', ''Evaluator'')],
      [(''CFO'', ''Evaluator''), (''CMO'', ''Evaluator'')],
      [(''CFO'', ''CMO''), (''CMO'', ''Evaluator'')],
      [(''CIO'', ''CFO''), (''CFO'', ''CMO''), (''CMO'', ''Evaluator'')]]"
  by (simp add: registry_def)

lemma registry_no_node_twice:
  "list_all (distinct \<circ> shape_nodes \<circ> shape) registry"
  by (simp add: registry_def)

lemma flows_described:
  "map description FLOWS = map (describe \<circ> shape) registry"
  by (simp add: FLOWS_def registry_def)

text \<open>
  C6. The selector offers exactly four flows, \<open>kpi_review\<close>, \<open>trade_off\<close>, \<open>scenario\<close>
  and \<open>root_cause\<close>, and what it writes under each is the graph of the registry: the
  chain CEO, CFO, CMO, CIO, Evaluator of five nodes; the parallel group of CFO and CMO
  that converges into Evaluator; the chain CFO, CMO, Evaluator of three nodes; the
  chain CIO, CFO, CMO, Evaluator of four nodes.
\<close>

theorem C6_four_builtin_flows:
  "length FLOWS = 4
   \<and> distinct (map flow_id FLOWS)
   \<and> map flow_id FLOWS = map spec_id registry
   \<and> map description FLOWS = map (describe \<circ> shape) registry
   \<and> map shape registry =
       [Chain [''CEO'', ''CFO'', ''CMO'', ''CIO'', ''Evaluator''],
        ParallelJoin [''CFO'', ''CMO''] ''Evaluator'',
        Chain [''CFO'', ''CMO'', ''Evaluator''],
        Chain [''CIO'', ''CFO'', ''CMO'', ''Evaluator'']]
   \<and> map (length \<circ> shape_nodes \<circ> shape) registry = [5, 3, 3, 4]"
proof -
  have ids: "map flow_id FLOWS = [''kpi_review'', ''trade_off'', ''scenario'', ''root_cause'']"
    by (simp add: FLOWS_def)
  have counts: "map (length \<circ> shape_nodes \<circ> shape) registry = [5, 3, 3, 4]"
    by (simp add: registry_def)
  have four: "length FLOWS = 4" by (simp add: FLOWS_def)
  have same: "map spec_id registry = [''kpi_review'', ''trade_off'', ''scenario'', ''root_cause'']"
    by (simp add: registry_def)
  show ?thesis
    using four counts flows_described registry_shapes
    by (simp add: ids same)
qed

subsection \<open>Starting a run\<close>

lemma streaming_clears_session_fields:
  "session_fields_cleared (runFlowWithStreaming env s)"
  by (simp add: session_fields_cleared_def runFlowWithStreaming_def Let_def)

lemma question_clears_session_fields:
  "\<not> blank (question s) \<Longrightarrow> session_fields_cleared (question_begin s)"
  "\<not> blank (question s) \<Longrightarrow> decisionSummary (question_begin s) = None"
  "\<not> blank (question s) \<Longrightarrow> flowReasoning (question_begin s) = []"
  by (simp_all add: session_fields_cleared_def question_begin_def question_reset_def)

lemma close_source_at:
  "source_open k (close_source j cs) = (k \<noteq> j \<and> source_open k cs)"
  by (auto simp: source_open_def close_source_def nth_list_update)

lemma streaming_sources:
  "eventSources (runFlowWithStreaming env s) =
     (case eventSourceRef s of None \<Rightarrow> eventSources s | Some j \<Rightarrow> close_source j (eventSources s))
       @ [\<lparr>url = stream_url env (selectedFlow s) (selectedMode s), is_open = True\<rparr>]"
  by (simp add: runFlowWithStreaming_def Let_def split: option.splits)

lemma length_close_source: "length (close_source j cs) = length cs"
  by (simp add: close_source_def)

lemma streaming_ref:
  "eventSourceRef (runFlowWithStreaming env s) = Some (length (eventSources s))"
  by (simp add: runFlowWithStreaming_def Let_def length_close_source split: option.splits)

lemma streaming_new_source_open:
  "source_open (length (eventSources s)) (eventSources (runFlowWithStreaming env s))"
  by (simp add: streaming_sources source_open_def length_close_source nth_append
      split: option.splits)

lemma streaming_closes_held_source:
  "eventSourceRef s = Some j \<Longrightarrow> j < length (eventSources s) \<Longrightarrow>
   \<not> source_open j (eventSources (runFlowWithStreaming env s))"
  by (simp add: streaming_sources source_open_def length_close_source nth_append
      close_source_def)

lemma streaming_keeps_question_state:
  "flowReasoning (runFlowWithStreaming env s) = flowReasoning s"
  "decisionSummary (runFlowWithStreaming env s) = decisionSummary s"
  by (simp_all add: runFlowWithStreaming_def Let_def)

lemma question_keeps_sources:
  "eventSources (question_begin s) = eventSources s"
  "eventSourceRef (question_begin s) = eventSourceRef s"
  by (simp_all add: question_begin_def question_reset_def)

lemma answered_home_fields:
  "flowReasoning answered_home = ''General performance question''"
  "map_option ds_summary (decisionSummary answered_home) = Some ''Revenue is up''"
  "\<not> blank (question answered_home)"
  by (simp_all add: answered_home_def question_run asking_not_blank question_success_def
      question_reset_def chat_base_def)

lemma streaming_home_fields:
  "eventSourceRef streaming_home = Some 0"
  "length (eventSources streaming_home) = 1"
  "\<not> blank (question streaming_home)"
  by (simp_all add: streaming_home_def set_question_def live_home_def runFlowWithStreaming_def
      initial_home_def Let_def blank_def is_space_def)

lemma streaming_home_open: "source_open 0 (eventSources streaming_home)"
  using live_home_open by (simp add: streaming_home_def set_question_def)

text \<open>
  C10 does not hold of the page: each path leaves state of the earlier session that
  the other path removes. Run Flow, pressed after a question has been answered, clears
  the eight session fields but keeps the summary and the reasoning of that question,
  which the question path clears. A question started from the input while a stream is
  open clears the eight session fields but leaves the stream open, which the streaming
  path closes; the events the stream then delivers write the earlier session into the
  new run.
\<close>

theorem C10_earlier_session_survives:
  "session_fields_cleared (runFlowWithStreaming None answered_home)
   \<and> map_option ds_summary (decisionSummary (runFlowWithStreaming None answered_home))
       = Some ''Revenue is up''
   \<and> flowReasoning (runFlowWithStreaming None answered_home) = ''General performance question''
   \<and> \<not> nothing_survives answered_home (runFlowWithStreaming None answered_home)
   \<and> decisionSummary (question_begin answered_home) = None
   \<and> flowReasoning (question_begin answered_home) = []
   \<and> session_fields_cleared (question_begin streaming_home)
   \<and> source_open 0 (eventSources streaming_home)
   \<and> source_open 0 (eventSources (question_begin streaming_home))
   \<and> \<not> nothing_survives streaming_home (question_begin streaming_home)
   \<and> status_of (on_event 0 (agent_start ''CFO'' (Some ''10:00:01'')) (question_begin streaming_home))
        ''CFO'' = Some ''active''
   \<and> map_option session_id
       (session (on_event 0 (session_complete ''S1'' ''10:00:33'' None) (question_begin streaming_home)))
       = Some ''S1''
   \<and> \<not> source_open 0 (eventSources (runFlowWithStreaming None streaming_home))"
proof -
  have a: "\<not> nothing_survives answered_home (runFlowWithStreaming None answered_home)"
    by (simp add: nothing_survives_def streaming_keeps_question_state answered_home_fields)
  have o: "source_open 0 (eventSources (question_begin streaming_home))"
    by (simp add: question_keeps_sources streaming_home_open)
  have "open_sources (question_begin streaming_home) = [0]"
    using streaming_home_open
    by (simp add: open_sources_def question_keeps_sources streaming_home_fields source_open_def)
  then have b: "\<not> nothing_survives streaming_home (question_begin streaming_home)"
    by (simp add: nothing_survives_def streaming_home_fields)
  have c: "\<not> source_open 0 (eventSources (runFlowWithStreaming None streaming_home))"
    by (rule streaming_closes_held_source) (simp_all add: streaming_home_fields)
  have q: "decisionSummary (question_begin answered_home) = None"
    "flowReasoning (question_begin answered_home) = []"
    "session_fields_cleared (question_begin streaming_home)"
    by (simp_all add: question_clears_session_fields answered_home_fields streaming_home_fields)
  show ?thesis
    using a b c o q
    by (simp add: streaming_clears_session_fields streaming_keeps_question_state
        answered_home_fields streaming_home_open on_event_def status_of_handle
        del: handle.simps)
       simp
qed

subsection \<open>The sources the page has opened\<close>

lemma open_sources_iff: "i \<in> set (open_sources s) \<longleftrightarrow> source_open i (eventSources s)"
  by (auto simp: open_sources_def source_open_def)

lemma sources_tidy_iff:
  "sources_tidy s \<longleftrightarrow>
     (\<forall>j. eventSourceRef s = Some j \<longrightarrow> j < length (eventSources s))
     \<and> (\<forall>i. source_open i (eventSources s) \<longrightarrow> eventSourceRef s = Some i)"
  by (auto simp: sources_tidy_def list_all_iff open_sources_iff split: option.splits)

lemma tidy_initial: "sources_tidy initial_home"
  by (simp add: sources_tidy_iff initial_home_def source_open_def)

lemma streaming_source_open_iff:
  assumes "sources_tidy s"
  shows "source_open i (eventSources (runFlowWithStreaming env s)) \<longleftrightarrow> i = length (eventSources s)"
proof (cases "eventSourceRef s")
  case None
  with assms have "\<And>k. \<not> source_open k (eventSources s)"
    by (auto simp: sources_tidy_iff)
  then show ?thesis
    using None by (auto simp: streaming_sources source_open_def nth_append)
next
  case (Some j)
  with assms have "\<And>k. source_open k (eventSources s) \<Longrightarrow> k = j"
    by (auto simp: sources_tidy_iff)
  then have "\<And>k. \<not> source_open k (close_source j (eventSources s))"
    by (auto simp: close_source_at)
  then show ?thesis
    using Some
    by (auto simp: streaming_sources source_open_def nth_append length_close_source)
qed

lemma tidy_streaming:
  assumes "sources_tidy s"
  shows "sources_tidy (runFlowWithStreaming env s)"
proof -
  have "length (eventSources (runFlowWithStreaming env s)) = Suc (length (eventSources s))"
    by (simp add: streaming_sources length_close_source split: option.splits)
  then show ?thesis
    unfolding sources_tidy_iff[of "runFlowWithStreaming env s"]
    by (simp add: streaming_source_open_iff[OF assms] streaming_ref)
qed

lemma tidy_transfer:
  assumes "sources_tidy s"
    and "eventSourceRef s' = eventSourceRef s"
    and "length (eventSources s') = length (eventSources s)"
    and "\<And>k. source_open k (eventSources s') \<Longrightarrow> source_open k (eventSources s)"
  shows "sources_tidy s'"
  using assms unfolding sources_tidy_iff by auto

lemma eventSourceRef_handle: "eventSourceRef (handle i ev s) = eventSourceRef s"
  by (cases ev) (simp_all add: Let_def)

lemma tidy_on_event:
  assumes "sources_tidy s"
  shows "sources_tidy (on_event i ev s)"
proof (cases "source_open i (eventSources s)")
  case True
  have "sources_tidy (handle i ev s)"
    by (rule tidy_transfer[OF assms])
       (auto simp: eventSourceRef_handle eventSources_handle length_close_source close_source_at
          simp del: handle.simps split: event.splits)
  with True show ?thesis by (simp add: on_event_def)
next
  case False
  with assms show ?thesis by (simp add: on_event_def)
qed

lemma tidy_on_error:
  assumes "sources_tidy s"
  shows "sources_tidy (on_error i s)"
  by (rule tidy_transfer[OF assms])
     (auto simp: on_error_def length_close_source close_source_at split: if_splits)

lemma tidy_question:
  assumes "sources_tidy s"
  shows "sources_tidy (runFlowFromQuestion now outcome s)"
  by (rule tidy_transfer[OF assms]; cases outcome)
     (auto simp: runFlowFromQuestion_def question_reset_def question_success_def
        split: if_splits)

lemma streaming_leaves_one_source:
  "sources_tidy s \<Longrightarrow> open_sources (runFlowWithStreaming env s) = [length (eventSources s)]"
proof -
  assume t: "sources_tidy s"
  have len: "length (eventSources (runFlowWithStreaming env s)) = Suc (length (eventSources s))"
    by (simp add: streaming_sources length_close_source split: option.splits)
  have "open_sources (runFlowWithStreaming env s)
      = filter (\<lambda>i. source_open i (eventSources (runFlowWithStreaming env s)))
          [0 ..< Suc (length (eventSources s))]"
    unfolding open_sources_def len
    by (rule filter_cong) (auto simp: source_open_def len)
  also have "\<dots> = filter (\<lambda>i. i = length (eventSources s)) [0 ..< Suc (length (eventSources s))]"
    by (simp add: streaming_source_open_iff[OF t])
  also have "\<dots> = [length (eventSources s)]"
    by (simp add: filter_empty_conv)
  finally show ?thesis .
qed

end
